theory Spec2Isabelle
  imports Complex_Main
begin

section \<open>The program and its collaborators\<close>

text \<open>
  The program (\<^verbatim>\<open>src/main.cpp\<close>) is one straight-line \<^verbatim>\<open>main\<close> followed by a render
  loop, plus two small functions, \<^verbatim>\<open>framebuffer_size_callback\<close> and \<^verbatim>\<open>processInput\<close>.
  Everything it does is a call into GLFW, GLAD, OpenGL or \<^verbatim>\<open>std::cout\<close>. The embedding
  records every such call, in program order, as an event of a trace; a value that the
  program receives back from a collaborator (a handle, a status, a log, a key state) is
  read from an environment record and also stored in the event that returned it.
\<close>

subsection \<open>Enumerators used by the calls\<close>

datatype window_hint = GLFW_CONTEXT_VERSION_MAJOR | GLFW_CONTEXT_VERSION_MINOR | GLFW_OPENGL_PROFILE

datatype hint_value = HintInt int | GLFW_OPENGL_CORE_PROFILE | GLFW_OPENGL_COMPAT_PROFILE

datatype shader_type = GL_VERTEX_SHADER | GL_FRAGMENT_SHADER

datatype buffer_target = GL_ARRAY_BUFFER | GL_ELEMENT_ARRAY_BUFFER

datatype buffer_usage = GL_STREAM_DRAW | GL_STATIC_DRAW | GL_DYNAMIC_DRAW

datatype component_type = GL_FLOAT | GL_INT | GL_UNSIGNED_BYTE

datatype clear_mask = GL_COLOR_BUFFER_BIT | GL_DEPTH_BUFFER_BIT | GL_STENCIL_BUFFER_BIT

datatype draw_mode = GL_POINTS | GL_LINES | GL_TRIANGLES

datatype key = GLFW_KEY_ESCAPE | GLFW_KEY_ENTER | GLFW_KEY_SPACE

text \<open>
  A floating-point literal of the source is kept as the decimal number that is written
  there (\<^verbatim>\<open>0.2f\<close> is \<open>0.2\<close>); the program never computes with these values, it only
  passes them on.
\<close>

type_synonym float_literal = rat

subsection \<open>Events: one per call, in program order\<close>

datatype glfw_call =
    Init
  | WindowHint window_hint hint_value
  | CreateWindow int int string bool
  | Terminate
  | MakeContextCurrent
  | SetFramebufferSizeCallback
  | WindowShouldClose bool
  | GetKey key bool
  | SetWindowShouldClose bool
  | SwapBuffers
  | PollEvents bool

datatype gl_shader_call =
    CreateShader shader_type nat
  | ShaderSource nat string
  | CompileShader nat
  | GetShaderiv_COMPILE_STATUS nat bool
  | GetShaderInfoLog nat nat string
  | CreateProgram nat
  | AttachShader nat nat
  | LinkProgram nat
  | UseProgram nat
  | DeleteShader nat
  | GetProgramiv_LINK_STATUS nat bool
  | GetProgramInfoLog nat nat string

datatype gl_call =
    GenBuffers nat
  | GenVertexArrays nat
  | BindVertexArray nat
  | BindBuffer buffer_target nat
  | BufferData buffer_target nat "float_literal list" buffer_usage
  | VertexAttribPointer nat nat component_type bool nat nat
  | EnableVertexAttribArray nat
  | ClearColor float_literal float_literal float_literal float_literal
  | Clear clear_mask
  | DrawArrays draw_mode nat nat
  | Viewport int int int int

text \<open>
  \<open>Glfw\<close>: a call of the windowing library; \<open>GlShader\<close>: an OpenGL call that works on
  a shader or program object; \<open>Gl\<close>: any other OpenGL call; \<open>GladLoadGLLoader\<close>: the
  function loader; \<open>Cout\<close>: a line written to \<^verbatim>\<open>std::cout\<close>.
\<close>

datatype event =
    Glfw glfw_call
  | GlShader gl_shader_call
  | Gl gl_call
  | GladLoadGLLoader bool
  | Cout string

type_synonym trace = "event list"

subsection \<open>The environment: what the collaborators answer\<close>

text \<open>
  \<open>window_created\<close>: \<^verbatim>\<open>glfwCreateWindow\<close> returned a non-null window.
  \<open>glad_loaded\<close>: \<^verbatim>\<open>gladLoadGLLoader\<close> returned non-zero.
  \<open>vertexShader\<close>, \<open>fragmentShader\<close>, \<open>shaderProgram\<close>, \<open>VBO\<close>, \<open>VAO\<close>: the handles the
  driver hands out, under the names of the variables that hold them.
  \<open>compile_status\<close>, \<open>shader_info_log\<close>: what the driver answers for a shader handle.
  \<open>link_status\<close>, \<open>program_info_log\<close>: what the driver answers for a program handle.
  \<open>key_escape n\<close>: \<^verbatim>\<open>glfwGetKey\<close> answers \<^verbatim>\<open>GLFW_PRESS\<close> in iteration \<open>n\<close> of the loop.
  \<open>close_requested n\<close>: the events dispatched by \<^verbatim>\<open>glfwPollEvents\<close> in iteration \<open>n\<close>
  contain a close request of the user, which sets the window's close flag.
  \<open>resizes n\<close>: the framebuffer sizes notified during that same \<^verbatim>\<open>glfwPollEvents\<close>.
\<close>

record environment =
  window_created :: bool
  glad_loaded :: bool
  vertexShader :: nat
  fragmentShader :: nat
  shaderProgram :: nat
  VBO :: nat
  VAO :: nat
  compile_status :: "nat \<Rightarrow> bool"
  shader_info_log :: "nat \<Rightarrow> string"
  link_status :: "nat \<Rightarrow> bool"
  program_info_log :: "nat \<Rightarrow> string"
  key_escape :: "nat \<Rightarrow> bool"
  close_requested :: "nat \<Rightarrow> bool"
  resizes :: "nat \<Rightarrow> (int \<times> int) list"

subsection \<open>Constants of the source\<close>

definition endl :: string where
  "endl = [CHR 0x0A]"

definition vertexShaderSource :: string where
  "vertexShaderSource =
     ''#version 330 core'' @ [CHR 0x0A] @
     ''layout (location = 0) in vec3 aPos;'' @ [CHR 0x0A] @
     ''void main()'' @ [CHR 0x0A] @
     ''{'' @ [CHR 0x0A] @
     ''   gl_Position = vec4(aPos.x, aPos.y, aPos.z, 1.0);'' @ [CHR 0x0A] @
     ''}''"

definition fragmentShaderSource :: string where
  "fragmentShaderSource =
     ''#version 330 core'' @ [CHR 0x0A] @
     ''out vec4 FragColor;'' @ [CHR 0x0A] @
     ''void main()'' @ [CHR 0x0A] @
     ''{'' @ [CHR 0x0A] @
     [CHR 0x09] @ ''FragColor = vec4(1.0f, 0.5f, 0.2f, 1.0f);'' @ [CHR 0x0A] @
     ''}''"

text \<open>\<^verbatim>\<open>char infoLog[512]\<close>: the driver writes at most 511 characters and the terminator.\<close>

definition infoLog_size :: nat where
  "infoLog_size = 512"

definition c_string :: "nat \<Rightarrow> string \<Rightarrow> string" where
  "c_string bufSize s = take (bufSize - 1) s"

definition sizeof_float :: nat where
  "sizeof_float = 4"

definition vertices :: "float_literal list" where
  "vertices = [-0.5, -0.5, 0.0,
               0.5, -0.5, 0.0,
               0.0,  0.5, 0.0]"

definition sizeof_vertices :: nat where
  "sizeof_vertices = length vertices * sizeof_float"

section \<open>\<^verbatim>\<open>main\<close>, block by block\<close>

text \<open>Lines 86 to 96: initialise GLFW, request OpenGL 3.3 core, create the window.\<close>

definition create_window :: "environment \<Rightarrow> trace" where
  "create_window env =
     [Glfw Init,
      Glfw (WindowHint GLFW_CONTEXT_VERSION_MAJOR (HintInt 3)),
      Glfw (WindowHint GLFW_CONTEXT_VERSION_MINOR (HintInt 3)),
      Glfw (WindowHint GLFW_OPENGL_PROFILE GLFW_OPENGL_CORE_PROFILE),
      Glfw (CreateWindow 800 600 ''LearnOpenGL'' (window_created env))]"

text \<open>Lines 103 to 108: make the context current, register the callback, load GLAD.\<close>

definition load_functions :: "environment \<Rightarrow> trace" where
  "load_functions env =
     [Glfw MakeContextCurrent,
      Glfw SetFramebufferSizeCallback,
      GladLoadGLLoader (glad_loaded env)]"

text \<open>Lines 118 to 132: the vertex shader.\<close>

definition vertex_shader_block :: "environment \<Rightarrow> trace" where
  "vertex_shader_block env =
     [GlShader (CreateShader GL_VERTEX_SHADER (vertexShader env)),
      GlShader (ShaderSource (vertexShader env) vertexShaderSource),
      GlShader (CompileShader (vertexShader env)),
      GlShader (GetShaderiv_COMPILE_STATUS (vertexShader env) (compile_status env (vertexShader env)))] @
     (if \<not> compile_status env (vertexShader env) then
        [GlShader (GetShaderInfoLog (vertexShader env) infoLog_size
           (c_string infoLog_size (shader_info_log env (vertexShader env)))),
         Cout (''ERROR::SHADER::VERTEX::COMPILATION_FAILED'' @ [CHR 0x0A] @
               c_string infoLog_size (shader_info_log env (vertexShader env)) @ endl)]
      else [])"

text \<open>
  Lines 135 to 147: the fragment shader. On failure the log is asked of
  \<^verbatim>\<open>vertexShader\<close> (line 145), as the source has it.
\<close>

definition fragment_shader_block :: "environment \<Rightarrow> trace" where
  "fragment_shader_block env =
     [GlShader (CreateShader GL_FRAGMENT_SHADER (fragmentShader env)),
      GlShader (ShaderSource (fragmentShader env) fragmentShaderSource),
      GlShader (CompileShader (fragmentShader env)),
      GlShader (GetShaderiv_COMPILE_STATUS (fragmentShader env) (compile_status env (fragmentShader env)))] @
     (if \<not> compile_status env (fragmentShader env) then
        [GlShader (GetShaderInfoLog (vertexShader env) infoLog_size
           (c_string infoLog_size (shader_info_log env (vertexShader env)))),
         Cout (''ERROR::SHADER::FRAGMENT::COMPILATION_FAILED'' @ [CHR 0x0A] @
               c_string infoLog_size (shader_info_log env (vertexShader env)) @ endl)]
      else [])"

text \<open>Lines 150 to 167: create, attach, link, use; delete the shaders; check the link.\<close>

definition program_block :: "environment \<Rightarrow> trace" where
  "program_block env =
     [GlShader (CreateProgram (shaderProgram env)),
      GlShader (AttachShader (shaderProgram env) (vertexShader env)),
      GlShader (AttachShader (shaderProgram env) (fragmentShader env)),
      GlShader (LinkProgram (shaderProgram env)),
      GlShader (UseProgram (shaderProgram env)),
      GlShader (DeleteShader (vertexShader env)),
      GlShader (DeleteShader (fragmentShader env)),
      GlShader (GetProgramiv_LINK_STATUS (shaderProgram env) (link_status env (shaderProgram env)))] @
     (if \<not> link_status env (shaderProgram env) then
        [GlShader (GetProgramInfoLog (shaderProgram env) infoLog_size
           (c_string infoLog_size (program_info_log env (shaderProgram env)))),
         Cout (''ERROR::SHADER::PROGRAM:: Linking failed'' @ [CHR 0x0A] @
               c_string infoLog_size (program_info_log env (shaderProgram env)) @ endl)]
      else [])"

definition shader_setup :: "environment \<Rightarrow> trace" where
  "shader_setup env = vertex_shader_block env @ fragment_shader_block env @ program_block env"

text \<open>Lines 172 to 238: the vertex data, the buffer and the vertex array.\<close>

definition geometry_setup :: "environment \<Rightarrow> trace" where
  "geometry_setup env =
     [Gl (GenBuffers (VBO env)),
      Gl (GenVertexArrays (VAO env)),
      Gl (BindVertexArray (VAO env)),
      Gl (BindBuffer GL_ARRAY_BUFFER (VBO env)),
      Gl (BufferData GL_ARRAY_BUFFER sizeof_vertices vertices GL_STATIC_DRAW),
      Gl (VertexAttribPointer 0 3 GL_FLOAT False (3 * sizeof_float) 0),
      Gl (EnableVertexAttribArray 0),
      Gl (BindBuffer GL_ARRAY_BUFFER 0),
      Gl (BindVertexArray 0)]"

subsection \<open>The two helper functions\<close>

text \<open>Lines 278 to 287.\<close>

definition framebuffer_size_callback :: "int \<Rightarrow> int \<Rightarrow> trace" where
  "framebuffer_size_callback width height = [Gl (Viewport 0 0 width height)]"

text \<open>
  Lines 290 to 297. The second component is the window's close flag after the call:
  \<^verbatim>\<open>glfwSetWindowShouldClose(window, true)\<close> sets it.
\<close>

definition processInput :: "environment \<Rightarrow> nat \<Rightarrow> bool \<Rightarrow> trace \<times> bool" where
  "processInput env n flag =
     (if key_escape env n
      then ([Glfw (GetKey GLFW_KEY_ESCAPE True), Glfw (SetWindowShouldClose True)], True)
      else ([Glfw (GetKey GLFW_KEY_ESCAPE False)], flag))"

subsection \<open>The render loop\<close>

text \<open>Lines 253 to 261.\<close>

definition render_commands :: "environment \<Rightarrow> trace" where
  "render_commands env =
     [Gl (ClearColor 0.2 0.3 0.3 1.0),
      Gl (Clear GL_COLOR_BUFFER_BIT),
      GlShader (UseProgram (shaderProgram env)),
      Gl (BindVertexArray (VAO env)),
      Gl (DrawArrays GL_TRIANGLES 0 3)]"

text \<open>
  Lines 265 to 269. \<^verbatim>\<open>glfwPollEvents\<close> dispatches the pending events: each resize runs
  the registered callback, a close request sets the close flag.
\<close>

definition swap_and_poll :: "environment \<Rightarrow> nat \<Rightarrow> bool \<Rightarrow> trace \<times> bool" where
  "swap_and_poll env n flag =
     ([Glfw SwapBuffers, Glfw (PollEvents (close_requested env n))] @
        concat (map (\<lambda>(w, h). framebuffer_size_callback w h) (resizes env n)),
      flag \<or> close_requested env n)"

text \<open>Lines 246 to 271: the body of the loop, in iteration \<open>n\<close>.\<close>

definition loop_body :: "environment \<Rightarrow> nat \<Rightarrow> bool \<Rightarrow> trace \<times> bool" where
  "loop_body env n flag =
     (let (input, flag1) = processInput env n flag;
          (present, flag2) = swap_and_poll env n flag1
      in (input @ render_commands env @ present, flag2))"

text \<open>
  Line 245: \<^verbatim>\<open>while (!glfwWindowShouldClose(window))\<close>. The loop may run forever, so
  its result is an option: \<open>None\<close> is the run that never leaves the loop.
\<close>

partial_function (option) render_loop ::
  "environment \<Rightarrow> nat \<Rightarrow> bool \<Rightarrow> trace \<Rightarrow> trace option" where
  "render_loop env n flag acc =
     (if flag then Some (acc @ [Glfw (WindowShouldClose True)])
      else render_loop env (Suc n) (snd (loop_body env n flag))
             (acc @ Glfw (WindowShouldClose False) # fst (loop_body env n flag)))"

subsection \<open>\<^verbatim>\<open>main\<close>\<close>

text \<open>
  The result is the trace of the calls and the value \<^verbatim>\<open>main\<close> returns. A window that
  was just created has its close flag cleared.
\<close>

definition main :: "environment \<Rightarrow> (trace \<times> int) option" where
  "main env =
     (if \<not> window_created env then
        Some (create_window env @
              [Cout (''Failed to create GLFW window'' @ endl), Glfw Terminate], - 1)
      else if \<not> glad_loaded env then
        Some (create_window env @ load_functions env @
              [Cout (''Failed to initialize GLAD'' @ endl)], - 1)
      else
        (case render_loop env 0 False
                (create_window env @ load_functions env @ shader_setup env @ geometry_setup env) of
           None \<Rightarrow> None
         | Some t \<Rightarrow> Some (t @ [Glfw Terminate], 0)))"

section \<open>Reading a trace\<close>

subsection \<open>The iterations of the loop\<close>

text \<open>
  Iteration \<open>n\<close> observes a close signal when the escape key is seen pressed by
  \<^verbatim>\<open>processInput\<close> or a close request arrives in its \<^verbatim>\<open>glfwPollEvents\<close>.
  \<open>first_close env k\<close>: iteration \<open>k\<close> is the first one that does.
\<close>

definition closing :: "environment \<Rightarrow> nat \<Rightarrow> bool" where
  "closing env n = (key_escape env n \<or> close_requested env n)"

definition first_close :: "environment \<Rightarrow> nat \<Rightarrow> bool" where
  "first_close env k = (closing env k \<and> list_all (\<lambda>j. \<not> closing env j) [0..<k])"

text \<open>The calls before the loop, when the window and the function table are there.\<close>

definition setup_calls :: "environment \<Rightarrow> trace" where
  "setup_calls env = create_window env @ load_functions env @ shader_setup env @ geometry_setup env"

text \<open>One passage through the loop: the check that lets it in, then the body.\<close>

definition frame :: "environment \<Rightarrow> nat \<Rightarrow> trace" where
  "frame env n = Glfw (WindowShouldClose False) # fst (loop_body env n False)"

definition frames :: "environment \<Rightarrow> nat \<Rightarrow> nat \<Rightarrow> trace" where
  "frames env a b = concat (map (frame env) [a..<b])"

subsection \<open>What an event is\<close>

fun loop_check :: "event \<Rightarrow> bool option" where
  "loop_check (Glfw (WindowShouldClose b)) = Some b"
| "loop_check _ = None"

fun linked_program :: "event \<Rightarrow> nat option" where
  "linked_program (GlShader (LinkProgram p)) = Some p"
| "linked_program _ = None"

fun draw_call :: "event \<Rightarrow> (draw_mode \<times> nat \<times> nat) option" where
  "draw_call (Gl (DrawArrays mode first count)) = Some (mode, first, count)"
| "draw_call _ = None"

fun gl_call_of :: "event \<Rightarrow> gl_call option" where
  "gl_call_of (Gl c) = Some c"
| "gl_call_of _ = None"

text \<open>The compiled-stage handle that a call takes or returns, if it has one.\<close>

fun stage_handle :: "event \<Rightarrow> nat option" where
  "stage_handle (GlShader (CreateShader ty h)) = Some h"
| "stage_handle (GlShader (ShaderSource h src)) = Some h"
| "stage_handle (GlShader (CompileShader h)) = Some h"
| "stage_handle (GlShader (GetShaderiv_COMPILE_STATUS h ok)) = Some h"
| "stage_handle (GlShader (GetShaderInfoLog h bufSize msg)) = Some h"
| "stage_handle (GlShader (AttachShader p h)) = Some h"
| "stage_handle (GlShader (DeleteShader h)) = Some h"
| "stage_handle _ = None"



fun link_status_query :: "event \<Rightarrow> (nat \<times> bool) option" where
  "link_status_query (GlShader (GetProgramiv_LINK_STATUS p ok)) = Some (p, ok)"
| "link_status_query _ = None"

fun used_program :: "event \<Rightarrow> nat option" where
  "used_program (GlShader (UseProgram p)) = Some p"
| "used_program _ = None"



definition observes_close :: "event \<Rightarrow> bool" where
  "observes_close e = (e = Glfw (GetKey GLFW_KEY_ESCAPE True) \<or> e = Glfw (PollEvents True))"

text \<open>The exit paths: how often \<^verbatim>\<open>glfwTerminate\<close> is called, and the loop checks made.\<close>

definition terminate_calls :: "trace \<Rightarrow> nat" where
  "terminate_calls t = length (filter (\<lambda>e. e = Glfw Terminate) t)"

definition loop_checks :: "trace \<Rightarrow> bool list" where
  "loop_checks t = List.map_filter loop_check t"




definition link_status_queries :: "trace \<Rightarrow> (nat \<times> bool) list" where
  "link_status_queries t = List.map_filter link_status_query t"


text \<open>The compiled-stage handles that the calls of a trace name, in order.\<close>

definition stage_handles :: "trace \<Rightarrow> nat list" where
  "stage_handles t = List.map_filter stage_handle t"

definition draw_calls :: "trace \<Rightarrow> (draw_mode \<times> nat \<times> nat) list" where
  "draw_calls t = List.map_filter draw_call t"

text \<open>
  The iterations that a trace holds: each starts after a loop check that answered false
  and runs up to the next loop check.
\<close>

fun iterations :: "trace \<Rightarrow> trace list" where
  "iterations [] = []"
| "iterations (e # es) =
     (if e = Glfw (WindowShouldClose False)
      then takeWhile (\<lambda>x. loop_check x = None) es # iterations es
      else iterations es)"

text \<open>What follows the first observation of a close signal, and the first link.\<close>

definition after_close_observed :: "trace \<Rightarrow> trace" where
  "after_close_observed t = drop 1 (dropWhile (\<lambda>e. \<not> observes_close e) t)"


definition after_link :: "trace \<Rightarrow> trace" where
  "after_link t = drop 1 (dropWhile (\<lambda>e. linked_program e = None) t)"

subsection \<open>The binding points of the OpenGL context\<close>

text \<open>
  OpenGL is a state machine (lines 13 to 20 of the source): \<^verbatim>\<open>glUseProgram\<close>,
  \<^verbatim>\<open>glBindVertexArray\<close> and \<^verbatim>\<open>glBindBuffer(GL_ARRAY_BUFFER, _)\<close> each set one binding
  point, which stays until the next such call; \<open>0\<close> is "nothing bound".

  \<^verbatim>\<open>glUseProgram(p)\<close> installs \<open>p\<close> only if \<open>p\<close> is \<open>0\<close> (no program) or a program whose
  link succeeded; for any other \<open>p\<close> OpenGL raises \<^verbatim>\<open>GL_INVALID_OPERATION\<close> and the current
  program stays what it was. \<open>linked\<close> tells of which programs the link succeeded; the
  source links its one program before it first uses it, so \<open>link_status env\<close> is that
  predicate for its runs.

  \<open>annotate\<close> pairs every call of a trace with the bindings in force when it is issued.
\<close>

record gl_bindings =
  current_program :: nat
  vertex_array :: nat
  array_buffer :: nat

definition initial_bindings :: gl_bindings where
  "initial_bindings = \<lparr>current_program = 0, vertex_array = 0, array_buffer = 0\<rparr>"

definition use_program :: "(nat \<Rightarrow> bool) \<Rightarrow> nat \<Rightarrow> gl_bindings \<Rightarrow> gl_bindings" where
  "use_program linked p b = (if p = 0 \<or> linked p then b\<lparr>current_program := p\<rparr> else b)"

fun gl_step :: "(nat \<Rightarrow> bool) \<Rightarrow> event \<Rightarrow> gl_bindings \<Rightarrow> gl_bindings" where
  "gl_step linked (GlShader (UseProgram p)) b = use_program linked p b"
| "gl_step linked (Gl (BindVertexArray v)) b = b\<lparr>vertex_array := v\<rparr>"
| "gl_step linked (Gl (BindBuffer GL_ARRAY_BUFFER x)) b = b\<lparr>array_buffer := x\<rparr>"
| "gl_step linked _ b = b"

fun bindings_after :: "(nat \<Rightarrow> bool) \<Rightarrow> gl_bindings \<Rightarrow> trace \<Rightarrow> gl_bindings" where
  "bindings_after linked b [] = b"
| "bindings_after linked b (e # es) = bindings_after linked (gl_step linked e b) es"

fun annotate :: "(nat \<Rightarrow> bool) \<Rightarrow> gl_bindings \<Rightarrow> trace \<Rightarrow> (gl_bindings \<times> event) list" where
  "annotate linked b [] = []"
| "annotate linked b (e # es) = (b, e) # annotate linked (gl_step linked e b) es"

text \<open>The bindings under which each draw call of a trace is issued.\<close>

definition draws_from :: "(nat \<Rightarrow> bool) \<Rightarrow> gl_bindings \<Rightarrow> trace \<Rightarrow> gl_bindings list" where
  "draws_from linked b t =
     map fst (filter (\<lambda>be. draw_call (snd be) \<noteq> None) (annotate linked b t))"

definition draws :: "(nat \<Rightarrow> bool) \<Rightarrow> trace \<Rightarrow> gl_bindings list" where
  "draws linked t = draws_from linked initial_bindings t"

text \<open>The OpenGL calls proper (no shader or program object involved), with their bindings.\<close>

definition gl_calls_from ::
  "(nat \<Rightarrow> bool) \<Rightarrow> gl_bindings \<Rightarrow> trace \<Rightarrow> (gl_bindings \<times> event) list" where
  "gl_calls_from linked b t =
     filter (\<lambda>be. gl_call_of (snd be) \<noteq> None) (annotate linked b t)"

definition gl_calls :: "(nat \<Rightarrow> bool) \<Rightarrow> trace \<Rightarrow> (gl_bindings \<times> event) list" where
  "gl_calls linked t = gl_calls_from linked initial_bindings t"

text \<open>
  The program that is current once \<^verbatim>\<open>glUseProgram(shaderProgram)\<close> has been called in a
  context that had none: the program itself if its link succeeded, none otherwise.
\<close>

definition program_in_use :: "environment \<Rightarrow> nat" where
  "program_in_use env =
     (if link_status env (shaderProgram env) then shaderProgram env else 0)"

subsection \<open>What the code asks to draw with\<close>

text \<open>
  Apart from what OpenGL makes of it: \<open>program_named p t\<close> is the program that the last
  \<^verbatim>\<open>glUseProgram\<close> call of \<open>t\<close> names (\<open>p\<close> when \<open>t\<close> has none), and \<open>draw_requests p t\<close>
  gives, for each draw call of \<open>t\<close>, the program that the latest \<^verbatim>\<open>glUseProgram\<close> call
  before it names (\<open>p\<close> when there is none before).
\<close>

fun program_named :: "nat \<Rightarrow> trace \<Rightarrow> nat" where
  "program_named p [] = p"
| "program_named p (e # es) =
     program_named (case used_program e of Some q \<Rightarrow> q | None \<Rightarrow> p) es"

fun draw_requests :: "nat \<Rightarrow> trace \<Rightarrow> nat list" where
  "draw_requests p [] = []"
| "draw_requests p (e # es) =
     (case used_program e of
        Some q \<Rightarrow> draw_requests q es
      | None \<Rightarrow> (if draw_call e = None then draw_requests p es
                 else p # draw_requests p es))"

subsection \<open>The iteration as the specification words it\<close>

text \<open>
  Section 4.4 of the specification: poll input; clear the colour target to the fixed
  background colour; bind the program and the geometry configuration; issue one draw call
  with the triangle topology over the uploaded vertices; swap the buffers, then poll the
  window-system events (which may run the resize observer).
\<close>

definition uploaded_vertex_count :: nat where
  "uploaded_vertex_count = sizeof_vertices div (3 * sizeof_float)"

definition spec_poll_input :: "environment \<Rightarrow> nat \<Rightarrow> trace" where
  "spec_poll_input env n =
     Glfw (GetKey GLFW_KEY_ESCAPE (key_escape env n)) #
     (if key_escape env n then [Glfw (SetWindowShouldClose True)] else [])"

definition spec_iteration :: "environment \<Rightarrow> nat \<Rightarrow> trace" where
  "spec_iteration env n =
     spec_poll_input env n @
     [Gl (ClearColor (2 / 10) (3 / 10) (3 / 10) 1), Gl (Clear GL_COLOR_BUFFER_BIT)] @
     [GlShader (UseProgram (shaderProgram env)), Gl (BindVertexArray (VAO env))] @
     [Gl (DrawArrays GL_TRIANGLES 0 uploaded_vertex_count)] @
     [Glfw SwapBuffers, Glfw (PollEvents (close_requested env n))] @
     map (\<lambda>wh. Gl (Viewport 0 0 (fst wh) (snd wh))) (resizes env n)"

subsection \<open>The viewport transformation\<close>

text \<open>
  \<^verbatim>\<open>glViewport(x, y, w, h)\<close> makes OpenGL map a normalised coordinate \<open>c\<close> to the window
  coordinate \<open>origin + (c + 1) * extent / 2\<close> (lines 283 to 285 of the source give the
  example of \<open>(-0.5, 0.5)\<close> going to \<open>(200, 450)\<close> on 800 by 600). The transformation is
  taken over the rationals.
\<close>

fun viewport_rectangle :: "event \<Rightarrow> (int \<times> int \<times> int \<times> int) option" where
  "viewport_rectangle (Gl (Viewport x y w h)) = Some (x, y, w, h)"
| "viewport_rectangle _ = None"

definition window_coordinate :: "int \<Rightarrow> int \<Rightarrow> rat \<Rightarrow> rat" where
  "window_coordinate origin extent c = of_int origin + (c + 1) * of_int extent / 2"

fun to_window :: "int \<times> int \<times> int \<times> int \<Rightarrow> rat \<times> rat \<Rightarrow> rat \<times> rat" where
  "to_window (x, y, w, h) (cx, cy) = (window_coordinate x w cx, window_coordinate y h cy)"

section \<open>Concrete environments\<close>

text \<open>
  Everything succeeds; the window is shown at 800 by 600 during the first poll; the
  escape key is seen pressed in the second iteration.
\<close>

definition nominal :: environment where
  "nominal =
     \<lparr>window_created = True, glad_loaded = True,
      vertexShader = 1, fragmentShader = 2, shaderProgram = 3, VBO = 1, VAO = 1,
      compile_status = (\<lambda>h. True), shader_info_log = (\<lambda>h. []),
      link_status = (\<lambda>p. True), program_info_log = (\<lambda>p. []),
      key_escape = (\<lambda>n. n = 1), close_requested = (\<lambda>n. False),
      resizes = (\<lambda>n. if n = 0 then [(800, 600)] else [])\<rparr>"


text \<open>
  The fragment shader has lost its closing brace and does not compile; the vertex shader
  compiles, so its log is empty.
\<close>

definition fragment_broken :: environment where
  "fragment_broken =
     nominal\<lparr>compile_status := (\<lambda>h. h \<noteq> 2),
             shader_info_log := (\<lambda>h. if h = 2 then ''0:6(1): error: syntax error'' else [])\<rparr>"

text \<open>The program does not link; the window is closed during the first poll.\<close>

definition link_broken :: environment where
  "link_broken =
     nominal\<lparr>link_status := (\<lambda>p. False),
             program_info_log := (\<lambda>p. ''error: linking with uncompiled shader''),
             key_escape := (\<lambda>n. False), close_requested := (\<lambda>n. True)\<rparr>"

text \<open>No window; and a window, but no function table.\<close>

definition no_window :: environment where
  "no_window = nominal\<lparr>window_created := False\<rparr>"

definition no_functions :: environment where
  "no_functions = nominal\<lparr>glad_loaded := False\<rparr>"

section \<open>The loop returns exactly when a close signal arrives\<close>

lemma loop_body_flag: "snd (loop_body env n False) = closing env n"
  by (simp add: loop_body_def processInput_def swap_and_poll_def closing_def split: prod.splits)

lemma frames_step: "a \<le> b \<Longrightarrow> frames env a (Suc b) = frame env a @ frames env (Suc a) (Suc b)"
  unfolding frames_def by (subst upt_conv_Cons) simp_all

lemma frames_empty: "frames env a a = []"
  by (simp add: frames_def)

lemma frames_snoc: "a \<le> b \<Longrightarrow> frames env a (Suc b) = frames env a b @ frame env b"
  by (simp add: frames_def)

lemma render_loop_closes:
  "closing env k \<Longrightarrow> (\<forall>j. n \<le> j \<and> j < k \<longrightarrow> \<not> closing env j) \<Longrightarrow> n \<le> k \<Longrightarrow>
   render_loop env n False acc = Some (acc @ frames env n (Suc k) @ [Glfw (WindowShouldClose True)])"
proof (induction "k - n" arbitrary: n acc)
  case 0
  then have [simp]: "n = k" by simp
  show ?case
    using "0.prems"(1)
    by (subst render_loop.simps, subst render_loop.simps)
       (simp add: loop_body_flag frames_step frames_empty frame_def)
next
  case (Suc d)
  then have lt: "n < k" and d: "d = k - Suc n" by simp_all
  have nc: "\<not> closing env n" using Suc.prems(2) lt by simp
  have ih: "render_loop env (Suc n) False acc' =
            Some (acc' @ frames env (Suc n) (Suc k) @ [Glfw (WindowShouldClose True)])" for acc'
    using Suc.hyps(1)[OF d Suc.prems(1)] Suc.prems(2) lt by simp
  show ?case
    using nc lt
    by (subst render_loop.simps) (simp add: loop_body_flag ih frames_step frame_def)
qed

lemma render_loop_returns:
  assumes "render_loop env n flag acc = Some t"
  shows "flag \<or> (\<exists>k\<ge>n. closing env k)"
proof (rule render_loop.raw_induct
         [where P = "\<lambda>env n flag acc t. flag \<or> (\<exists>k\<ge>n. closing env k)", OF _ assms])
  fix loop :: "environment \<Rightarrow> nat \<Rightarrow> bool \<Rightarrow> trace \<Rightarrow> trace option"
  fix env n flag acc t
  assume ih: "\<And>env n flag acc t. loop env n flag acc = Some t \<Longrightarrow> flag \<or> (\<exists>k\<ge>n. closing env k)"
  assume step: "(if flag then Some (acc @ [Glfw (WindowShouldClose True)])
      else loop env (Suc n) (snd (loop_body env n flag))
            (acc @ Glfw (WindowShouldClose False) # fst (loop_body env n flag))) = Some t"
  show "flag \<or> (\<exists>k\<ge>n. closing env k)"
  proof (cases flag)
    case True
    then show ?thesis by simp
  next
    case False
    with step ih[of env "Suc n" "snd (loop_body env n False)"]
    have "closing env n \<or> (\<exists>k\<ge>Suc n. closing env k)"
      by (simp add: loop_body_flag)
    then have "\<exists>k\<ge>n. closing env k"
    proof
      assume "closing env n"
      then show ?thesis by blast
    next
      assume "\<exists>k\<ge>Suc n. closing env k"
      then obtain k where k: "Suc n \<le> k" "closing env k" by blast
      then have "n \<le> k" by simp
      with k show ?thesis by blast
    qed
    then show ?thesis by simp
  qed
qed

lemma first_close_iff: "first_close env k \<longleftrightarrow> closing env k \<and> (\<forall>j<k. \<not> closing env j)"
  by (auto simp: first_close_def list_all_iff)

lemma first_close_exists: "closing env k \<Longrightarrow> \<exists>k'. first_close env k'"
proof -
  assume c: "closing env k"
  let ?m = "LEAST j. closing env j"
  have "closing env ?m" using c by (rule LeastI)
  moreover have "\<forall>j<?m. \<not> closing env j" using not_less_Least by blast
  ultimately show ?thesis unfolding first_close_iff by blast
qed

lemma first_close_unique: "first_close env k \<Longrightarrow> first_close env k' \<Longrightarrow> k = k'"
  unfolding first_close_iff by (meson nat_neq_iff)

section \<open>The three ways through \<^verbatim>\<open>main\<close>\<close>

lemma main_no_window:
  "\<not> window_created env \<Longrightarrow>
   main env = Some (create_window env @ [Cout (''Failed to create GLFW window'' @ endl), Glfw Terminate], - 1)"
  by (simp add: main_def)

lemma main_no_functions:
  "window_created env \<Longrightarrow> \<not> glad_loaded env \<Longrightarrow>
   main env = Some (create_window env @ load_functions env @ [Cout (''Failed to initialize GLAD'' @ endl)], - 1)"
  by (simp add: main_def)

lemma main_closes:
  assumes "window_created env" "glad_loaded env" "first_close env k"
  shows "main env = Some (setup_calls env @ frames env 0 (Suc k) @
                          [Glfw (WindowShouldClose True), Glfw Terminate], 0)"
proof -
  have "render_loop env 0 False (setup_calls env) =
        Some (setup_calls env @ frames env 0 (Suc k) @ [Glfw (WindowShouldClose True)])"
    using assms(3) by (intro render_loop_closes) (simp_all add: first_close_iff)
  then show ?thesis
    using assms(1,2) by (simp add: main_def setup_calls_def)
qed

lemma main_in_loop:
  assumes "window_created env" "glad_loaded env" "main env = Some (t, c)"
  shows "\<exists>k. first_close env k"
proof -
  obtain t' where "render_loop env 0 False (setup_calls env) = Some t'"
    using assms by (auto simp: main_def setup_calls_def split: option.splits)
  then have "\<exists>k\<ge>0. closing env k" using render_loop_returns by blast
  then show ?thesis using first_close_exists by blast
qed

lemma main_forever:
  assumes "window_created env" "glad_loaded env" "\<forall>k. \<not> closing env k"
  shows "main env = None"
proof (cases "main env")
  case None
  then show ?thesis .
next
  case (Some r)
  then have "main env = Some (fst r, snd r)" by simp
  from main_in_loop[OF assms(1,2) this] assms(3) show ?thesis
    by (auto simp: first_close_iff)
qed

section \<open>The body is the specified iteration\<close>

lemma uploaded_vertex_count_3: "uploaded_vertex_count = 3"
  by (simp add: uploaded_vertex_count_def sizeof_vertices_def vertices_def sizeof_float_def)

lemma callbacks_map:
  "concat (map (\<lambda>(w, h). framebuffer_size_callback w h) rs) =
   map (\<lambda>wh. Gl (Viewport 0 0 (fst wh) (snd wh))) rs"
  by (induction rs) (auto simp: framebuffer_size_callback_def)

lemma loop_body_events: "fst (loop_body env n False) = spec_iteration env n"
  by (simp add: loop_body_def processInput_def swap_and_poll_def render_commands_def
      spec_iteration_def spec_poll_input_def uploaded_vertex_count_3 callbacks_map
      split: prod.splits)

lemma frame_eq: "frame env n = Glfw (WindowShouldClose False) # spec_iteration env n"
  by (simp add: frame_def loop_body_events)


section \<open>Counting calls along the trace\<close>

lemma map_filter_append: "List.map_filter f (xs @ ys) = List.map_filter f xs @ List.map_filter f ys"
  by (simp add: List.map_filter_def)

lemma loop_checks_append: "loop_checks (xs @ ys) = loop_checks xs @ loop_checks ys"
  by (simp add: loop_checks_def map_filter_append)

lemma loop_checks_create_window: "loop_checks (create_window env) = []"
  by (simp add: loop_checks_def create_window_def List.map_filter_def)

lemma loop_checks_load_functions: "loop_checks (load_functions env) = []"
  by (simp add: loop_checks_def load_functions_def List.map_filter_def)

lemma loop_checks_shader_setup: "loop_checks (shader_setup env) = []"
  by (simp add: loop_checks_def shader_setup_def vertex_shader_block_def
      fragment_shader_block_def program_block_def List.map_filter_def)

lemma loop_checks_geometry_setup: "loop_checks (geometry_setup env) = []"
  by (simp add: loop_checks_def geometry_setup_def List.map_filter_def)

lemma loop_checks_setup: "loop_checks (setup_calls env) = []"
  by (simp add: setup_calls_def loop_checks_append loop_checks_create_window
      loop_checks_load_functions loop_checks_shader_setup loop_checks_geometry_setup)

lemma loop_check_spec_iteration: "e \<in> set (spec_iteration env n) \<Longrightarrow> loop_check e = None"
  by (auto simp: spec_iteration_def spec_poll_input_def split: if_splits)

lemma loop_checks_spec_iteration: "loop_checks (spec_iteration env n) = []"
  by (simp add: loop_checks_def List.map_filter_def filter_empty_conv loop_check_spec_iteration)

lemma loop_checks_frame: "loop_checks (frame env n) = [False]"
  using loop_checks_spec_iteration[of env n]
  by (auto simp: frame_eq loop_checks_def List.map_filter_def)

lemma loop_checks_frames: "loop_checks (frames env 0 k) = replicate k False"
  by (induction k)
     (simp_all add: frames_empty frames_snoc loop_checks_append loop_checks_frame
        replicate_append_same, simp add: loop_checks_def List.map_filter_def)

lemma loop_checks_main:
  "loop_checks (setup_calls env @ frames env 0 (Suc k) @ [Glfw (WindowShouldClose True), Glfw Terminate])
   = replicate (Suc k) False @ [True]"
  by (simp only: loop_checks_append loop_checks_setup loop_checks_frames)
     (simp add: loop_checks_def map_filter_simps)

lemma loop_checks_no_window:
  "loop_checks (create_window env @ [Cout s, Glfw Terminate]) = []"
  by (simp add: loop_checks_append loop_checks_create_window) (simp add: loop_checks_def map_filter_simps)

lemma loop_checks_no_functions:
  "loop_checks (create_window env @ load_functions env @ [Cout s]) = []"
  by (simp add: loop_checks_append loop_checks_create_window loop_checks_load_functions)
     (simp add: loop_checks_def map_filter_simps)

subsection \<open>Calls along the whole run\<close>

lemma map_filter_concat:
  "List.map_filter f (concat xss) = concat (map (List.map_filter f) xss)"
  by (induction xss) (simp_all add: map_filter_simps map_filter_append)

lemma map_filter_frames:
  "(\<And>n. List.map_filter f (frame env n) = []) \<Longrightarrow> List.map_filter f (frames env a b) = []"
  by (simp add: frames_def map_filter_concat)

lemma map_filter_viewports:
  "(\<And>w h. f (Gl (Viewport 0 0 w h)) = None) \<Longrightarrow>
   List.map_filter f (map (\<lambda>wh. Gl (Viewport 0 0 (fst wh) (snd wh))) rs) = []"
  by (induction rs) (simp_all add: map_filter_simps)

subsection \<open>Link attempts\<close>






lemma first_close_nominal: "first_close nominal 1"
  by (simp add: first_close_def closing_def nominal_def)


lemma first_close_link_broken: "first_close link_broken 0"
  by (simp add: first_close_def closing_def link_broken_def nominal_def)

subsection \<open>After the link\<close>

lemma no_link_before_program_block:
  "e \<in> set (create_window env @ load_functions env @ vertex_shader_block env @
            fragment_shader_block env) \<Longrightarrow> linked_program e = None"
  by (auto simp: create_window_def load_functions_def vertex_shader_block_def
      fragment_shader_block_def split: if_splits)

lemma after_link_program_block:
  "after_link (program_block env @ rest) = drop 4 (program_block env) @ rest"
  by (simp add: after_link_def program_block_def)

lemma after_link_shader_setup:
  "after_link (shader_setup env @ rest) = drop 4 (program_block env) @ rest"
proof -
  have "\<And>e. e \<in> set (vertex_shader_block env @ fragment_shader_block env) \<Longrightarrow>
        linked_program e = None"
    using no_link_before_program_block[of _ env] by auto
  then have "dropWhile (\<lambda>e. linked_program e = None)
          ((vertex_shader_block env @ fragment_shader_block env) @ program_block env @ rest) =
        dropWhile (\<lambda>e. linked_program e = None) (program_block env @ rest)"
    by (rule dropWhile_append2)
  then show ?thesis
    using after_link_program_block[of env rest]
    by (simp add: after_link_def shader_setup_def)
qed

lemma after_link_setup:
  "after_link (setup_calls env @ rest) = drop 4 (program_block env) @ geometry_setup env @ rest"
proof -
  have "dropWhile (\<lambda>e. linked_program e = None)
          ((create_window env @ load_functions env) @ shader_setup env @ geometry_setup env @ rest) =
        dropWhile (\<lambda>e. linked_program e = None) (shader_setup env @ geometry_setup env @ rest)"
    using no_link_before_program_block[of _ env] by (intro dropWhile_append2) auto
  then show ?thesis
    using after_link_shader_setup[of env "geometry_setup env @ rest"]
    by (simp add: after_link_def setup_calls_def)
qed

lemma take_3_after_link:
  "take 3 (drop 4 (program_block env) @ rest) =
   [GlShader (UseProgram (shaderProgram env)), GlShader (DeleteShader (vertexShader env)),
    GlShader (DeleteShader (fragmentShader env))]"
  by (simp add: program_block_def)

lemma drop_3_after_link:
  "drop 3 (drop 4 (program_block env) @ rest) = drop 7 (program_block env) @ rest"
  by (simp add: program_block_def)

lemma stage_handles_append: "stage_handles (xs @ ys) = stage_handles xs @ stage_handles ys"
  by (simp add: stage_handles_def map_filter_append)

lemma stage_handles_link_report: "stage_handles (drop 7 (program_block env)) = []"
  by (simp add: stage_handles_def program_block_def map_filter_simps)

lemma stage_handles_geometry_setup: "stage_handles (geometry_setup env) = []"
  by (simp add: stage_handles_def geometry_setup_def map_filter_simps)

lemma stage_handles_spec_iteration: "List.map_filter stage_handle (spec_iteration env n) = []"
  by (simp add: spec_iteration_def spec_poll_input_def map_filter_simps
      map_filter_append map_filter_viewports)

lemma stage_handles_frame: "List.map_filter stage_handle (frame env n) = []"
  by (simp add: frame_eq map_filter_simps stage_handles_spec_iteration)

lemma loop_body_any_flag: "fst (loop_body env n flag) = spec_iteration env n"
  by (simp add: loop_body_def processInput_def swap_and_poll_def render_commands_def
      spec_iteration_def spec_poll_input_def uploaded_vertex_count_3 callbacks_map
      split: prod.splits)

lemma stage_handles_rest_of_run:
  "stage_handles (drop 7 (program_block env) @ geometry_setup env @ frames env 0 (Suc k) @
                  [Glfw (WindowShouldClose True), Glfw Terminate]) = []"
  by (simp only: stage_handles_append stage_handles_link_report stage_handles_geometry_setup)
     (simp add: stage_handles_def map_filter_frames stage_handles_frame map_filter_simps)

lemma use_program_in_frames:
  "GlShader (UseProgram (shaderProgram env)) \<in> set (frames env 0 (Suc k))"
proof -
  have "GlShader (UseProgram (shaderProgram env)) \<in> set (frame env k)"
    by (simp add: frame_eq spec_iteration_def)
  then show ?thesis by (simp add: frames_snoc)
qed

subsection \<open>Splitting a run into iterations\<close>

lemma loop_checks_empty_iff: "loop_checks t = [] \<longleftrightarrow> (\<forall>e\<in>set t. loop_check e = None)"
  by (simp add: loop_checks_def List.map_filter_def filter_empty_conv)

lemma iterations_skip:
  "\<forall>e\<in>set xs. loop_check e = None \<Longrightarrow> iterations (xs @ ys) = iterations ys"
  by (induction xs) auto

lemma iterations_frame:
  assumes "loop_check r \<noteq> None"
  shows "iterations (frame env n @ r # rest) = spec_iteration env n # iterations (r # rest)"
proof -
  have none: "\<And>e. e \<in> set (spec_iteration env n) \<Longrightarrow> loop_check e = None"
    by (rule loop_check_spec_iteration)
  have "takeWhile (\<lambda>x. loop_check x = None) (spec_iteration env n @ r # rest) =
        spec_iteration env n @ takeWhile (\<lambda>x. loop_check x = None) (r # rest)"
    using none by (intro takeWhile_append2) auto
  with assms have tw: "takeWhile (\<lambda>x. loop_check x = None) (spec_iteration env n @ r # rest) =
        spec_iteration env n" by simp
  have "iterations (spec_iteration env n @ r # rest) = iterations (r # rest)"
    using none by (intro iterations_skip) simp
  with tw show ?thesis by (simp add: frame_eq)
qed

lemma frames_then_check:
  "\<exists>r rest. frames env a b @ [Glfw (WindowShouldClose True), Glfw Terminate] = r # rest \<and>
            loop_check r \<noteq> None"
proof (cases "a < b")
  case True
  then have "frames env a b = frame env a @ frames env (Suc a) b"
    unfolding frames_def by (subst upt_conv_Cons) simp_all
  then show ?thesis by (auto simp: frame_eq)
next
  case False
  then show ?thesis by (auto simp: frames_def)
qed

lemma iterations_frames:
  "a \<le> Suc k \<Longrightarrow>
   iterations (frames env a (Suc k) @ [Glfw (WindowShouldClose True), Glfw Terminate]) =
   map (spec_iteration env) [a..<Suc k]"
proof (induction "Suc k - a" arbitrary: a)
  case 0
  then have "a = Suc k" by simp
  then show ?case by (simp add: frames_empty)
next
  case (Suc d)
  then have ak: "a \<le> k" and d: "d = Suc k - Suc a" by simp_all
  obtain r rest where r: "frames env (Suc a) (Suc k) @
       [Glfw (WindowShouldClose True), Glfw Terminate] = r # rest" "loop_check r \<noteq> None"
    using frames_then_check by blast
  have "iterations (frames env a (Suc k) @ [Glfw (WindowShouldClose True), Glfw Terminate]) =
        iterations (frame env a @ r # rest)"
    using r(1) by (simp add: frames_step[OF ak])
  also have "\<dots> = spec_iteration env a # iterations (r # rest)"
    using r(2) by (rule iterations_frame)
  also have "iterations (r # rest) = map (spec_iteration env) [Suc a..<Suc k]"
    using Suc.hyps(1)[OF d] ak r(1) by simp
  also have "spec_iteration env a # map (spec_iteration env) [Suc a..<Suc k] =
             map (spec_iteration env) [a..<Suc k]"
    using ak by (simp add: upt_conv_Cons del: upt_Suc)
  finally show ?case .
qed

lemma iterations_main:
  "iterations (setup_calls env @ frames env 0 (Suc k) @
               [Glfw (WindowShouldClose True), Glfw Terminate]) =
   map (spec_iteration env) [0..<Suc k]"
proof -
  have "\<forall>e\<in>set (setup_calls env). loop_check e = None"
    using loop_checks_setup[of env] by (simp add: loop_checks_empty_iff)
  then have "iterations (setup_calls env @ frames env 0 (Suc k) @
               [Glfw (WindowShouldClose True), Glfw Terminate]) =
        iterations (frames env 0 (Suc k) @ [Glfw (WindowShouldClose True), Glfw Terminate])"
    by (rule iterations_skip)
  then show ?thesis using iterations_frames[of 0 k env] by simp
qed

lemma draw_calls_spec_iteration:
  "draw_calls (spec_iteration env n) = [(GL_TRIANGLES, 0, uploaded_vertex_count)]"
  by (simp add: draw_calls_def spec_iteration_def spec_poll_input_def map_filter_simps
      map_filter_append map_filter_viewports)

subsection \<open>After the close signal\<close>

lemma no_observation_in_setup: "e \<in> set (setup_calls env) \<Longrightarrow> \<not> observes_close e"
  by (auto simp: setup_calls_def create_window_def load_functions_def shader_setup_def
      vertex_shader_block_def fragment_shader_block_def program_block_def geometry_setup_def
      observes_close_def split: if_splits)

lemma no_observation_in_frame:
  "\<not> closing env n \<Longrightarrow> e \<in> set (frame env n) \<Longrightarrow> \<not> observes_close e"
  by (auto simp: frame_eq spec_iteration_def spec_poll_input_def closing_def observes_close_def)

lemma no_observation_in_frames:
  "\<forall>j<k. \<not> closing env j \<Longrightarrow> e \<in> set (frames env 0 k) \<Longrightarrow> \<not> observes_close e"
  by (auto simp: frames_def dest: no_observation_in_frame)

lemma draw_calls_viewports:
  "draw_calls (map (\<lambda>wh. Gl (Viewport 0 0 (fst wh) (snd wh))) rs @ rest) = draw_calls rest"
  by (simp add: draw_calls_def map_filter_append map_filter_viewports)

lemma after_close_in_frame:
  assumes "closing env k"
  shows "draw_calls (drop 1 (dropWhile (\<lambda>e. \<not> observes_close e)
           (frame env k @ [Glfw (WindowShouldClose True), Glfw Terminate]))) =
         (if key_escape env k then [(GL_TRIANGLES, 0, uploaded_vertex_count)] else [])"
proof (cases "key_escape env k")
  case True
  then show ?thesis
    using draw_calls_viewports[of "resizes env k" "[Glfw (WindowShouldClose True), Glfw Terminate]"]
    by (simp add: frame_eq spec_iteration_def spec_poll_input_def observes_close_def
        draw_calls_def map_filter_simps)
next
  case False
  with assms have "close_requested env k" by (simp add: closing_def)
  with False show ?thesis
    using draw_calls_viewports[of "resizes env k" "[Glfw (WindowShouldClose True), Glfw Terminate]"]
    by (simp add: frame_eq spec_iteration_def spec_poll_input_def observes_close_def
        draw_calls_def map_filter_simps)
qed

lemma after_close_main:
  assumes "first_close env k"
  shows "draw_calls (after_close_observed (setup_calls env @ frames env 0 (Suc k) @
           [Glfw (WindowShouldClose True), Glfw Terminate])) =
         (if key_escape env k then [(GL_TRIANGLES, 0, uploaded_vertex_count)] else [])"
proof -
  from assms have c: "closing env k" and nc: "\<forall>j<k. \<not> closing env j"
    by (simp_all add: first_close_iff)
  have "\<And>e. e \<in> set (setup_calls env @ frames env 0 k) \<Longrightarrow> \<not> observes_close e"
    using no_observation_in_setup[of _ env] no_observation_in_frames[OF nc] by auto
  then have "dropWhile (\<lambda>e. \<not> observes_close e)
          ((setup_calls env @ frames env 0 k) @
           frame env k @ [Glfw (WindowShouldClose True), Glfw Terminate]) =
        dropWhile (\<lambda>e. \<not> observes_close e)
          (frame env k @ [Glfw (WindowShouldClose True), Glfw Terminate])"
    by (intro dropWhile_append2) simp
  then show ?thesis
    using after_close_in_frame[OF c]
    by (simp add: after_close_observed_def frames_snoc)
qed

subsection \<open>The resize observer\<close>

lemma viewports_of_poll:
  "List.map_filter viewport_rectangle (fst (swap_and_poll env n flag)) =
   map (\<lambda>wh. (0, 0, fst wh, snd wh)) (resizes env n)"
proof -
  have "List.map_filter viewport_rectangle (map (\<lambda>wh. Gl (Viewport 0 0 (fst wh) (snd wh))) rs) =
        map (\<lambda>wh. (0, 0, fst wh, snd wh)) rs" for rs :: "(int \<times> int) list"
    by (induction rs) (simp_all add: map_filter_simps)
  then show ?thesis
    by (simp add: swap_and_poll_def callbacks_map map_filter_simps)
qed

lemma window_coordinate_affine:
  "window_coordinate x w ((1 - s) * a + s * b) =
   (1 - s) * window_coordinate x w a + s * window_coordinate x w b"
  by (simp add: window_coordinate_def algebra_simps add_divide_distrib diff_divide_distrib)

subsection \<open>Bindings along the run\<close>

lemma bindings_after_append:
  "bindings_after L b (xs @ ys) = bindings_after L (bindings_after L b xs) ys"
  by (induction xs arbitrary: b) simp_all

lemma annotate_append:
  "annotate L b (xs @ ys) = annotate L b xs @ annotate L (bindings_after L b xs) ys"
  by (induction xs arbitrary: b) simp_all

lemma draws_from_append:
  "draws_from L b (xs @ ys) = draws_from L b xs @ draws_from L (bindings_after L b xs) ys"
  by (simp add: draws_from_def annotate_append)

lemma gl_calls_from_append:
  "gl_calls_from L b (xs @ ys) =
   gl_calls_from L b xs @ gl_calls_from L (bindings_after L b xs) ys"
  by (simp add: gl_calls_from_def annotate_append)

lemma bindings_after_viewports:
  "bindings_after L b (map (\<lambda>wh. Gl (Viewport 0 0 (fst wh) (snd wh))) rs) = b"
  by (induction rs) simp_all

lemma draws_from_viewports:
  "draws_from L b (map (\<lambda>wh. Gl (Viewport 0 0 (fst wh) (snd wh))) rs) = []"
  by (induction rs) (simp_all add: draws_from_def)

lemma use_program_initial:
  "use_program (link_status env) (shaderProgram env) initial_bindings =
   \<lparr>current_program = program_in_use env, vertex_array = 0, array_buffer = 0\<rparr>"
  by (simp add: use_program_def program_in_use_def initial_bindings_def)

lemma use_program_in_use:
  "current_program b = program_in_use env \<Longrightarrow>
   use_program (link_status env) (shaderProgram env) b = b"
  by (auto simp: use_program_def program_in_use_def)

lemma bindings_after_bootstrap:
  "bindings_after L b (create_window env @ load_functions env) = b"
  by (simp add: create_window_def load_functions_def)

lemma bindings_after_shader_setup:
  "bindings_after L b (shader_setup env) = use_program L (shaderProgram env) b"
  by (simp add: shader_setup_def vertex_shader_block_def fragment_shader_block_def
      program_block_def bindings_after_append)

lemma bindings_after_geometry_setup:
  "bindings_after L b (geometry_setup env) = b\<lparr>vertex_array := 0, array_buffer := 0\<rparr>"
  by (simp add: geometry_setup_def)

lemma bindings_after_setup:
  "bindings_after (link_status env) initial_bindings (setup_calls env) =
   \<lparr>current_program = program_in_use env, vertex_array = 0, array_buffer = 0\<rparr>"
proof -
  have "bindings_after (link_status env) initial_bindings (setup_calls env) =
        bindings_after (link_status env)
          (bindings_after (link_status env)
             (bindings_after (link_status env) initial_bindings
                (create_window env @ load_functions env))
             (shader_setup env))
          (geometry_setup env)"
    by (simp add: setup_calls_def bindings_after_append)
  then show ?thesis
    by (simp only: bindings_after_bootstrap bindings_after_shader_setup
        bindings_after_geometry_setup use_program_initial) simp
qed

lemma gl_calls_from_bootstrap:
  "gl_calls_from L b (create_window env @ load_functions env) = []"
  by (simp add: gl_calls_from_def create_window_def load_functions_def)

lemma gl_calls_from_shader_setup: "gl_calls_from L b (shader_setup env) = []"
  by (simp add: gl_calls_from_def shader_setup_def vertex_shader_block_def
      fragment_shader_block_def program_block_def annotate_append)

lemma draws_from_setup: "draws_from L b (setup_calls env) = []"
  by (simp add: draws_from_def setup_calls_def create_window_def load_functions_def
      shader_setup_def vertex_shader_block_def fragment_shader_block_def program_block_def
      geometry_setup_def annotate_append)

lemma bindings_after_spec_iteration:
  "bindings_after L b (spec_iteration env n) =
   (use_program L (shaderProgram env) b)\<lparr>vertex_array := VAO env\<rparr>"
  by (simp add: spec_iteration_def spec_poll_input_def bindings_after_append
      bindings_after_viewports)

lemma draws_from_spec_iteration:
  "draws_from L b (spec_iteration env n) =
   [(use_program L (shaderProgram env) b)\<lparr>vertex_array := VAO env\<rparr>]"
proof -
  let ?fixed = "spec_poll_input env n @
          [Gl (ClearColor (2 / 10) (3 / 10) (3 / 10) 1), Gl (Clear GL_COLOR_BUFFER_BIT),
           GlShader (UseProgram (shaderProgram env)), Gl (BindVertexArray (VAO env)),
           Gl (DrawArrays GL_TRIANGLES 0 uploaded_vertex_count),
           Glfw SwapBuffers, Glfw (PollEvents (close_requested env n))]"
  let ?views = "map (\<lambda>wh. Gl (Viewport 0 0 (fst wh) (snd wh))) (resizes env n)"
  have "spec_iteration env n = ?fixed @ ?views" by (simp add: spec_iteration_def)
  then have "draws_from L b (spec_iteration env n) =
        draws_from L b ?fixed @ draws_from L (bindings_after L b ?fixed) ?views"
    by (simp only: draws_from_append)
  also have "\<dots> = draws_from L b ?fixed" by (simp only: draws_from_viewports append_Nil2)
  also have "\<dots> = [(use_program L (shaderProgram env) b)\<lparr>vertex_array := VAO env\<rparr>]"
    by (simp add: draws_from_def spec_poll_input_def)
  finally show ?thesis .
qed

lemma bindings_after_frame:
  "bindings_after L b (frame env n) =
   (use_program L (shaderProgram env) b)\<lparr>vertex_array := VAO env\<rparr>"
  by (simp add: frame_eq bindings_after_spec_iteration)

lemma draws_from_frame:
  "draws_from L b (frame env n) =
   [(use_program L (shaderProgram env) b)\<lparr>vertex_array := VAO env\<rparr>]"
  using draws_from_spec_iteration[of L b env n]
  by (simp add: frame_eq draws_from_def)

lemma frames_keep_program:
  assumes "current_program b = program_in_use env" and "array_buffer b = 0"
  shows "draws_from (link_status env) b (frames env 0 m) =
           replicate m \<lparr>current_program = program_in_use env, vertex_array = VAO env,
                         array_buffer = 0\<rparr> \<and>
         current_program (bindings_after (link_status env) b (frames env 0 m)) =
           program_in_use env \<and>
         array_buffer (bindings_after (link_status env) b (frames env 0 m)) = 0"
proof (induction m)
  case 0
  show ?case using assms by (simp add: frames_empty draws_from_def)
next
  case (Suc m)
  let ?b = "bindings_after (link_status env) b (frames env 0 m)"
  from Suc have cp: "current_program ?b = program_in_use env" and ab: "array_buffer ?b = 0"
    by simp_all
  have eq: "(use_program (link_status env) (shaderProgram env) ?b)\<lparr>vertex_array := VAO env\<rparr> =
        \<lparr>current_program = program_in_use env, vertex_array = VAO env, array_buffer = 0\<rparr>"
    using cp ab by (simp add: use_program_in_use)
  show ?case
    using Suc eq
    by (simp add: frames_snoc draws_from_append bindings_after_append draws_from_frame
        bindings_after_frame replicate_append_same)
qed

lemma draws_reached:
  "draws (link_status env) (setup_calls env @ frames env 0 m) =
   replicate m \<lparr>current_program = program_in_use env, vertex_array = VAO env,
                 array_buffer = 0\<rparr>"
  using frames_keep_program[of "\<lparr>current_program = program_in_use env, vertex_array = 0,
      array_buffer = 0\<rparr>" env m]
  by (simp add: draws_def draws_from_append draws_from_setup bindings_after_setup)

lemma draws_main:
  "draws (link_status env) (setup_calls env @ frames env 0 (Suc k) @
          [Glfw (WindowShouldClose True), Glfw Terminate]) =
   replicate (Suc k)
     \<lparr>current_program = program_in_use env, vertex_array = VAO env, array_buffer = 0\<rparr>"
proof -
  have "draws (link_status env) ((setup_calls env @ frames env 0 (Suc k)) @
          [Glfw (WindowShouldClose True), Glfw Terminate]) =
        draws (link_status env) (setup_calls env @ frames env 0 (Suc k))"
    unfolding draws_def draws_from_append[of _ _ "setup_calls env @ frames env 0 (Suc k)"]
    by (simp add: draws_from_def)
  then show ?thesis by (simp only: draws_reached append_assoc)
qed

subsection \<open>What the code asks for, along the run\<close>

lemma program_named_append:
  "program_named p (xs @ ys) = program_named (program_named p xs) ys"
  by (induction xs arbitrary: p) simp_all

lemma draw_requests_append:
  "draw_requests p (xs @ ys) = draw_requests p xs @ draw_requests (program_named p xs) ys"
  by (induction xs arbitrary: p) (simp_all split: option.splits)

lemma program_named_viewports:
  "program_named p (map (\<lambda>wh. Gl (Viewport 0 0 (fst wh) (snd wh))) rs) = p"
  by (induction rs) simp_all

lemma draw_requests_viewports:
  "draw_requests p (map (\<lambda>wh. Gl (Viewport 0 0 (fst wh) (snd wh))) rs) = []"
  by (induction rs) simp_all

lemma draw_requests_setup: "draw_requests q (setup_calls env) = []"
  by (simp add: setup_calls_def create_window_def load_functions_def shader_setup_def
      vertex_shader_block_def fragment_shader_block_def program_block_def geometry_setup_def
      draw_requests_append)

lemma program_named_spec_iteration:
  "program_named q (spec_iteration env n) = shaderProgram env"
  by (simp add: spec_iteration_def spec_poll_input_def program_named_append
      program_named_viewports)

lemma draw_requests_spec_iteration:
  "draw_requests q (spec_iteration env n) = [shaderProgram env]"
  by (simp add: spec_iteration_def spec_poll_input_def draw_requests_append
      draw_requests_viewports)

lemma draw_requests_frames:
  "draw_requests q (frames env 0 m) = replicate m (shaderProgram env) \<and>
   (0 < m \<longrightarrow> program_named q (frames env 0 m) = shaderProgram env)"
  by (induction m)
     (simp_all add: frames_empty frames_snoc draw_requests_append program_named_append
        frame_eq draw_requests_spec_iteration program_named_spec_iteration replicate_append_same)

lemma draw_requests_reached:
  "draw_requests 0 (setup_calls env @ frames env 0 m) = replicate m (shaderProgram env)"
  by (simp add: draw_requests_append draw_requests_setup draw_requests_frames)

lemma draw_requests_main:
  "draw_requests 0 (setup_calls env @ frames env 0 (Suc k) @
      [Glfw (WindowShouldClose True), Glfw Terminate]) = replicate (Suc k) (shaderProgram env)"
proof -
  have "draw_requests 0 ((setup_calls env @ frames env 0 (Suc k)) @
      [Glfw (WindowShouldClose True), Glfw Terminate]) =
      draw_requests 0 (setup_calls env @ frames env 0 (Suc k))"
    unfolding draw_requests_append[of _ "setup_calls env @ frames env 0 (Suc k)"] by simp
  then show ?thesis by (simp only: draw_requests_reached append_assoc)
qed

lemma link_status_queries_append:
  "link_status_queries (xs @ ys) = link_status_queries xs @ link_status_queries ys"
  by (simp add: link_status_queries_def map_filter_append)

lemma link_status_queries_setup:
  "link_status_queries (setup_calls env) =
   [(shaderProgram env, link_status env (shaderProgram env))]"
  by (simp add: link_status_queries_def setup_calls_def create_window_def load_functions_def
      shader_setup_def vertex_shader_block_def fragment_shader_block_def program_block_def
      geometry_setup_def map_filter_simps map_filter_append)

lemma link_status_queries_spec_iteration:
  "List.map_filter link_status_query (spec_iteration env n) = []"
  by (simp add: spec_iteration_def spec_poll_input_def map_filter_simps
      map_filter_append map_filter_viewports)

lemma link_status_queries_frame: "List.map_filter link_status_query (frame env n) = []"
  by (simp add: frame_eq map_filter_simps link_status_queries_spec_iteration)

lemma link_status_queries_reached:
  "link_status_queries (setup_calls env @ frames env 0 m) =
   [(shaderProgram env, link_status env (shaderProgram env))]"
  by (simp only: link_status_queries_append link_status_queries_setup)
     (simp add: link_status_queries_def map_filter_frames link_status_queries_frame)

lemma link_status_queries_main:
  "link_status_queries (setup_calls env @ frames env 0 (Suc k) @
      [Glfw (WindowShouldClose True), Glfw Terminate]) =
   [(shaderProgram env, link_status env (shaderProgram env))]"
  by (simp only: link_status_queries_append link_status_queries_setup)
     (simp add: link_status_queries_def map_filter_frames link_status_queries_frame
        map_filter_simps)

lemma render_loop_reaches:
  "\<forall>j<m. \<not> closing env j \<Longrightarrow>
   render_loop env 0 False acc = render_loop env m False (acc @ frames env 0 m)"
proof (induction m)
  case 0
  show ?case by (simp add: frames_empty)
next
  case (Suc m)
  then have nc: "\<not> closing env m" and ih: "render_loop env 0 False acc =
      render_loop env m False (acc @ frames env 0 m)" by simp_all
  have "render_loop env m False (acc @ frames env 0 m) =
        render_loop env (Suc m) False (acc @ frames env 0 (Suc m))"
    using render_loop.simps[of env m False "acc @ frames env 0 m"] nc
    by (simp add: loop_body_flag frame_def frames_snoc)
  with ih show ?case by simp
qed

subsection \<open>Before the link\<close>










section \<open>The claims\<close>

subsection \<open>Fatal paths\<close>

text \<open>
  Claim C10. The two fatal paths differ in cleanup. When the window cannot be created,
  \<^verbatim>\<open>main\<close> returns \<open>-1\<close> and its last call is \<^verbatim>\<open>glfwTerminate\<close> (the only such call).
  When the window is there but the function table cannot be loaded, \<^verbatim>\<open>main\<close> returns
  \<open>-1\<close> without ever calling \<^verbatim>\<open>glfwTerminate\<close>.
\<close>

theorem fatal_paths_differ_in_cleanup:
  "(\<not> window_created env \<longrightarrow>
      (\<exists>t. main env = Some (t @ [Glfw Terminate], - 1) \<and> terminate_calls t = 0)) \<and>
   (window_created env \<and> \<not> glad_loaded env \<longrightarrow>
      (\<exists>t. main env = Some (t, - 1) \<and> terminate_calls t = 0))"
proof (intro conjI impI)
  assume "\<not> window_created env"
  then show "\<exists>t. main env = Some (t @ [Glfw Terminate], - 1) \<and> terminate_calls t = 0"
    by (simp add: main_no_window terminate_calls_def create_window_def)
next
  assume "window_created env \<and> \<not> glad_loaded env"
  then show "\<exists>t. main env = Some (t, - 1) \<and> terminate_calls t = 0"
    by (simp add: main_no_functions terminate_calls_def create_window_def load_functions_def)
qed

theorem fatal_paths_differ_in_cleanup_witness:
  "\<not> window_created no_window \<and>
   map_option (\<lambda>r. (terminate_calls (fst r), snd r)) (main no_window) = Some (1, - 1) \<and>
   window_created no_functions \<and> \<not> glad_loaded no_functions \<and>
   map_option (\<lambda>r. (terminate_calls (fst r), snd r)) (main no_functions) = Some (0, - 1)"
  using fatal_paths_differ_in_cleanup[of no_window] fatal_paths_differ_in_cleanup[of no_functions]
  by (auto simp: no_window_def no_functions_def nominal_def terminate_calls_def)

subsection \<open>Exit codes\<close>

text \<open>
  Claim C4. \<^verbatim>\<open>main\<close> returns \<open>0\<close> exactly when the loop was entered and left through
  its check answering true, which happens exactly when the window and the function table
  are there and a close signal arrives in some iteration. It returns \<open>-1\<close> exactly when
  the window creation or the loading of the function table fails; then it does return,
  and not even the first check of the loop has been made.
\<close>

theorem exit_code:
  "(\<forall>t c. main env = Some (t, c) \<longrightarrow>
      (c = 0 \<longleftrightarrow> loop_checks t \<noteq> [] \<and> last (loop_checks t)) \<and>
      (c = - 1 \<longleftrightarrow> \<not> window_created env \<or> \<not> glad_loaded env) \<and>
      (c = - 1 \<longrightarrow> loop_checks t = [])) \<and>
   (\<not> window_created env \<or> \<not> glad_loaded env \<longrightarrow> (\<exists>t. main env = Some (t, - 1))) \<and>
   ((\<exists>t. main env = Some (t, 0)) \<longleftrightarrow>
      window_created env \<and> glad_loaded env \<and> (\<exists>k. closing env k))"
proof (intro conjI allI impI)
  fix t c
  assume run: "main env = Some (t, c)"
  consider (nw) "\<not> window_created env" | (nf) "window_created env" "\<not> glad_loaded env"
    | (ok) "window_created env" "glad_loaded env" by blast
  then have "(c = 0 \<longleftrightarrow> loop_checks t \<noteq> [] \<and> last (loop_checks t)) \<and>
      (c = - 1 \<longleftrightarrow> \<not> window_created env \<or> \<not> glad_loaded env) \<and>
      (c = - 1 \<longrightarrow> loop_checks t = [])"
  proof cases
    case nw
    with run main_no_window[OF nw] show ?thesis
      by (auto simp: loop_checks_no_window)
  next
    case nf
    with run main_no_functions[OF nf] show ?thesis
      by (auto simp: loop_checks_no_functions)
  next
    case ok
    from main_in_loop[OF ok run] obtain k where "first_close env k" ..
    from main_closes[OF ok this] run ok show ?thesis
      by (auto simp: loop_checks_main)
  qed
  then show "c = 0 \<longleftrightarrow> loop_checks t \<noteq> [] \<and> last (loop_checks t)"
    and "c = - 1 \<longleftrightarrow> \<not> window_created env \<or> \<not> glad_loaded env"
    and "c = - 1 \<Longrightarrow> loop_checks t = []"
    by blast+
next
  assume "\<not> window_created env \<or> \<not> glad_loaded env"
  then show "\<exists>t. main env = Some (t, - 1)"
    using main_no_window[of env] main_no_functions[of env] by (cases "window_created env") auto
next
  show "(\<exists>t. main env = Some (t, 0)) \<longleftrightarrow>
      window_created env \<and> glad_loaded env \<and> (\<exists>k. closing env k)"
  proof
    assume "\<exists>t. main env = Some (t, 0)"
    then obtain t where run: "main env = Some (t, 0)" ..
    have w: "window_created env" using run main_no_window[of env] by auto
    have g: "glad_loaded env" using run w main_no_functions[of env] by auto
    from main_in_loop[OF w g run] w g show "window_created env \<and> glad_loaded env \<and> (\<exists>k. closing env k)"
      by (auto simp: first_close_iff)
  next
    assume a: "window_created env \<and> glad_loaded env \<and> (\<exists>k. closing env k)"
    then obtain k where "first_close env k" using first_close_exists by blast
    with a main_closes[of env k] show "\<exists>t. main env = Some (t, 0)" by simp
  qed
qed

theorem exit_code_witness:
  "window_created nominal \<and> glad_loaded nominal \<and> closing nominal 1 \<and>
   map_option snd (main nominal) = Some 0 \<and>
   \<not> window_created no_window \<and> map_option snd (main no_window) = Some (- 1)"
proof -
  have n: "window_created nominal \<and> glad_loaded nominal \<and> closing nominal 1"
    by (simp add: nominal_def closing_def)
  then have "\<exists>t. main nominal = Some (t, 0)"
    using exit_code[of nominal] by blast
  moreover have w: "\<not> window_created no_window" by (simp add: no_window_def nominal_def)
  then have "\<exists>t. main no_window = Some (t, - 1)"
    using exit_code[of no_window] by blast
  ultimately show ?thesis using n w by auto
qed

subsection \<open>Linking\<close>




subsection \<open>The compiled stages\<close>

text \<open>
  Claim C9. After the link attempt the program is made current and then both stage
  handles are deleted, vertex first: these are the three calls that follow
  \<^verbatim>\<open>glLinkProgram\<close>, before the link status is even asked for, so whether the link
  succeeded plays no part. No later call names a stage handle: none in the rest of the
  shader setup, none in any iteration of the loop (even of a run that never ends), none in
  the rest of a run that returns; the program handle is used again in the loop.
\<close>

theorem stage_handles_released_after_link:
  "take 3 (after_link (shader_setup env)) =
     [GlShader (UseProgram (shaderProgram env)),
      GlShader (DeleteShader (vertexShader env)),
      GlShader (DeleteShader (fragmentShader env))] \<and>
   stage_handles (drop 3 (after_link (shader_setup env))) = [] \<and>
   (\<forall>n flag. stage_handles (fst (loop_body env n flag)) = []) \<and>
   (window_created env \<and> glad_loaded env \<longrightarrow>
      (\<forall>t c. main env = Some (t, c) \<longrightarrow>
         take 3 (after_link t) =
           [GlShader (UseProgram (shaderProgram env)),
            GlShader (DeleteShader (vertexShader env)),
            GlShader (DeleteShader (fragmentShader env))] \<and>
         stage_handles (drop 3 (after_link t)) = [] \<and>
         GlShader (UseProgram (shaderProgram env)) \<in> set (drop 3 (after_link t))))"
proof (intro conjI impI allI)
  have a: "after_link (shader_setup env) = drop 4 (program_block env) @ []"
    using after_link_shader_setup[of env "[]"] by simp
  show "take 3 (after_link (shader_setup env)) =
     [GlShader (UseProgram (shaderProgram env)),
      GlShader (DeleteShader (vertexShader env)),
      GlShader (DeleteShader (fragmentShader env))]"
    unfolding a by (rule take_3_after_link)
  show "stage_handles (drop 3 (after_link (shader_setup env))) = []"
    unfolding a drop_3_after_link by (simp add: stage_handles_link_report)
next
  fix n flag
  show "stage_handles (fst (loop_body env n flag)) = []"
    by (simp add: loop_body_any_flag stage_handles_def stage_handles_spec_iteration)
next
  fix t c
  assume ok: "window_created env \<and> glad_loaded env" and run: "main env = Some (t, c)"
  from ok have w: "window_created env" and g: "glad_loaded env" by simp_all
  from main_in_loop[OF w g run] obtain k where "first_close env k" ..
  from main_closes[OF w g this] run
  have t: "t = setup_calls env @ frames env 0 (Suc k) @
               [Glfw (WindowShouldClose True), Glfw Terminate]" by simp
  have a: "after_link t = drop 4 (program_block env) @ geometry_setup env @
             frames env 0 (Suc k) @ [Glfw (WindowShouldClose True), Glfw Terminate]"
    unfolding t by (rule after_link_setup)
  show "take 3 (after_link t) =
           [GlShader (UseProgram (shaderProgram env)),
            GlShader (DeleteShader (vertexShader env)),
            GlShader (DeleteShader (fragmentShader env))]"
    unfolding a by (rule take_3_after_link)
  show "stage_handles (drop 3 (after_link t)) = []"
    unfolding a drop_3_after_link by (rule stage_handles_rest_of_run)
  show "GlShader (UseProgram (shaderProgram env)) \<in> set (drop 3 (after_link t))"
    unfolding a drop_3_after_link using use_program_in_frames[of env k] by simp
qed

theorem stage_handles_released_after_link_witness:
  "window_created link_broken \<and> glad_loaded link_broken \<and>
   \<not> link_status link_broken (shaderProgram link_broken) \<and>
   map_option (take 3 \<circ> after_link \<circ> fst) (main link_broken) =
     Some [GlShader (UseProgram 3), GlShader (DeleteShader 1), GlShader (DeleteShader 2)] \<and>
   map_option (stage_handles \<circ> drop 3 \<circ> after_link \<circ> fst) (main link_broken) = Some []"
proof -
  have w: "window_created link_broken" and g: "glad_loaded link_broken"
    and l: "\<not> link_status link_broken (shaderProgram link_broken)"
    and h: "shaderProgram link_broken = 3" "vertexShader link_broken = 1"
           "fragmentShader link_broken = 2"
    by (simp_all add: link_broken_def nominal_def)
  from main_closes[OF w g first_close_link_broken]
  obtain t where run: "main link_broken = Some (t, 0)" by blast
  with stage_handles_released_after_link[of link_broken] w g
  have "take 3 (after_link t) =
          [GlShader (UseProgram (shaderProgram link_broken)),
           GlShader (DeleteShader (vertexShader link_broken)),
           GlShader (DeleteShader (fragmentShader link_broken))]"
       "stage_handles (drop 3 (after_link t)) = []"
    by blast+
  with run w g l h show ?thesis by simp
qed

text \<open>
  Claim C3 fails on the code at the fragment stage. In the environment
  \<open>fragment_broken\<close> the fragment shader (handle 2) does not compile and the driver holds
  a non-empty log for it, while the vertex shader (handle 1) compiled and has an empty
  log. The fragment block reports the failure, but asks the log of handle 1: the
  diagnostic it prints is empty.
\<close>

theorem fragment_failure_reads_vertex_log:
  "shader_info_log fragment_broken (fragmentShader fragment_broken) = ''0:6(1): error: syntax error'' \<and>
   fragment_shader_block fragment_broken =
     [GlShader (CreateShader GL_FRAGMENT_SHADER 2),
      GlShader (ShaderSource 2 fragmentShaderSource),
      GlShader (CompileShader 2),
      GlShader (GetShaderiv_COMPILE_STATUS 2 False),
      GlShader (GetShaderInfoLog 1 512 []),
      Cout (''ERROR::SHADER::FRAGMENT::COMPILATION_FAILED'' @ [CHR 0x0A] @ [] @ [CHR 0x0A])]"
  by (simp add: fragment_shader_block_def fragment_broken_def nominal_def infoLog_size_def
      c_string_def endl_def)

subsection \<open>The render loop\<close>

text \<open>
  Claim C5. The calls of every passage through the loop body, in any iteration and
  whatever the close flag (so also in a run that never ends), are those of the specified
  iteration, in its order: poll input; clear to the colour (0.2, 0.3, 0.3, 1.0); bind the
  program and the vertex array; draw; swap; poll events. Each iteration has exactly one
  draw call, with \<^verbatim>\<open>GL_TRIANGLES\<close> from vertex 0 over the uploaded vertex count. A run
  that returns consists, after the setup, of such iterations and nothing else, up to and
  including the one that first observes a close signal.
\<close>

theorem iteration_order:
  "(\<forall>n flag. fst (loop_body env n flag) = spec_iteration env n) \<and>
   (\<forall>n. draw_calls (spec_iteration env n) = [(GL_TRIANGLES, 0, uploaded_vertex_count)]) \<and>
   (window_created env \<and> glad_loaded env \<longrightarrow>
      (\<forall>t c. main env = Some (t, c) \<longrightarrow>
         (\<exists>k. first_close env k \<and> iterations t = map (spec_iteration env) [0..<Suc k])))"
proof (intro conjI impI allI)
  fix n flag
  show "fst (loop_body env n flag) = spec_iteration env n" by (rule loop_body_any_flag)
  show "draw_calls (spec_iteration env n) = [(GL_TRIANGLES, 0, uploaded_vertex_count)]"
    by (rule draw_calls_spec_iteration)
next
  fix t c
  assume ok: "window_created env \<and> glad_loaded env" and run: "main env = Some (t, c)"
  from ok have w: "window_created env" and g: "glad_loaded env" by simp_all
  from main_in_loop[OF w g run] obtain k where k: "first_close env k" ..
  from main_closes[OF w g k] run
  have "iterations t = map (spec_iteration env) [0..<Suc k]"
    by (simp only: iterations_main option.inject prod.inject)
  with k show "\<exists>k. first_close env k \<and> iterations t = map (spec_iteration env) [0..<Suc k]"
    by blast
qed

theorem iteration_order_witness:
  "window_created nominal \<and> glad_loaded nominal \<and>
   map_option (iterations \<circ> fst) (main nominal) =
     Some [[Glfw (GetKey GLFW_KEY_ESCAPE False),
            Gl (ClearColor (2 / 10) (3 / 10) (3 / 10) 1), Gl (Clear GL_COLOR_BUFFER_BIT),
            GlShader (UseProgram 3), Gl (BindVertexArray 1),
            Gl (DrawArrays GL_TRIANGLES 0 3),
            Glfw SwapBuffers, Glfw (PollEvents False), Gl (Viewport 0 0 800 600)],
           [Glfw (GetKey GLFW_KEY_ESCAPE True), Glfw (SetWindowShouldClose True),
            Gl (ClearColor (2 / 10) (3 / 10) (3 / 10) 1), Gl (Clear GL_COLOR_BUFFER_BIT),
            GlShader (UseProgram 3), Gl (BindVertexArray 1),
            Gl (DrawArrays GL_TRIANGLES 0 3),
            Glfw SwapBuffers, Glfw (PollEvents False)]]"
proof -
  have w: "window_created nominal" and g: "glad_loaded nominal"
    by (simp_all add: nominal_def)
  from main_closes[OF w g first_close_nominal]
  obtain t where run: "main nominal = Some (t, 0)" by blast
  with iteration_order[of nominal] w g
  obtain k where k: "first_close nominal k" "iterations t = map (spec_iteration nominal) [0..<Suc k]"
    by blast
  from k(1) first_close_nominal have "k = 1" by (rule first_close_unique)
  with k(2) have "iterations t = [spec_iteration nominal 0, spec_iteration nominal 1]"
    by (simp add: upt_conv_Cons del: upt_Suc)
  then have "iterations t = [[Glfw (GetKey GLFW_KEY_ESCAPE False),
            Gl (ClearColor (2 / 10) (3 / 10) (3 / 10) 1), Gl (Clear GL_COLOR_BUFFER_BIT),
            GlShader (UseProgram 3), Gl (BindVertexArray 1),
            Gl (DrawArrays GL_TRIANGLES 0 3),
            Glfw SwapBuffers, Glfw (PollEvents False), Gl (Viewport 0 0 800 600)],
           [Glfw (GetKey GLFW_KEY_ESCAPE True), Glfw (SetWindowShouldClose True),
            Gl (ClearColor (2 / 10) (3 / 10) (3 / 10) 1), Gl (Clear GL_COLOR_BUFFER_BIT),
            GlShader (UseProgram 3), Gl (BindVertexArray 1),
            Gl (DrawArrays GL_TRIANGLES 0 3),
            Glfw SwapBuffers, Glfw (PollEvents False)]]"
    by (simp add: spec_iteration_def spec_poll_input_def nominal_def uploaded_vertex_count_3)
  with run w g show ?thesis by simp
qed

text \<open>
  Claim C6. Let iteration \<open>k\<close> be the first that observes a close signal (the escape key
  seen pressed by \<^verbatim>\<open>processInput\<close>, or a close request in \<^verbatim>\<open>glfwPollEvents\<close>). Then
  the run returns with \<open>0\<close>; it has \<open>k + 1\<close> iterations, so iteration \<open>k\<close> is the last;
  that iteration is a complete one, with its draw call; the next loop check answers true.
  After the call that observes the signal at most one draw call is made: exactly one (the
  render of the same iteration) when the key was seen, none when the request came in the
  poll.
\<close>

theorem close_ends_the_loop:
  assumes "window_created env" and "glad_loaded env" and "first_close env k"
  shows "\<exists>t. main env = Some (t, 0) \<and>
             length (iterations t) = Suc k \<and>
             last (iterations t) = spec_iteration env k \<and>
             draw_calls (last (iterations t)) = [(GL_TRIANGLES, 0, uploaded_vertex_count)] \<and>
             last (loop_checks t) = True \<and>
             length (draw_calls (after_close_observed t)) = (if key_escape env k then 1 else 0) \<and>
             length (draw_calls (after_close_observed t)) \<le> 1"
proof -
  let ?t = "setup_calls env @ frames env 0 (Suc k) @
            [Glfw (WindowShouldClose True), Glfw Terminate]"
  have run: "main env = Some (?t, 0)" using assms by (rule main_closes)
  have it: "iterations ?t = map (spec_iteration env) [0..<Suc k]" by (rule iterations_main)
  have "length (iterations ?t) = Suc k" unfolding it by simp
  moreover have l: "last (iterations ?t) = spec_iteration env k" unfolding it by simp
  moreover have "draw_calls (last (iterations ?t)) = [(GL_TRIANGLES, 0, uploaded_vertex_count)]"
    unfolding l by (rule draw_calls_spec_iteration)
  moreover have "last (loop_checks ?t) = True" by (simp only: loop_checks_main last_snoc)
  moreover have "length (draw_calls (after_close_observed ?t)) = (if key_escape env k then 1 else 0)"
    by (simp only: after_close_main[OF assms(3)]) simp
  moreover from this have "length (draw_calls (after_close_observed ?t)) \<le> 1" by simp
  ultimately show ?thesis using run by blast
qed

theorem close_ends_the_loop_witness:
  "window_created nominal \<and> glad_loaded nominal \<and> first_close nominal 1 \<and>
   map_option (length \<circ> iterations \<circ> fst) (main nominal) = Some 2 \<and>
   map_option (length \<circ> draw_calls \<circ> after_close_observed \<circ> fst) (main nominal) = Some 1 \<and>
   window_created link_broken \<and> glad_loaded link_broken \<and> first_close link_broken 0 \<and>
   map_option (length \<circ> iterations \<circ> fst) (main link_broken) = Some 1 \<and>
   map_option (length \<circ> draw_calls \<circ> after_close_observed \<circ> fst) (main link_broken) = Some 0"
proof -
  have n: "window_created nominal" "glad_loaded nominal" "key_escape nominal 1"
    by (simp_all add: nominal_def)
  have b: "window_created link_broken" "glad_loaded link_broken" "\<not> key_escape link_broken 0"
    by (simp_all add: link_broken_def nominal_def)
  from close_ends_the_loop[OF n(1,2) first_close_nominal] n(3)
  have 1: "map_option (length \<circ> iterations \<circ> fst) (main nominal) = Some 2"
          "map_option (length \<circ> draw_calls \<circ> after_close_observed \<circ> fst) (main nominal) = Some 1"
    by auto
  from close_ends_the_loop[OF b(1,2) first_close_link_broken] b(3)
  have 2: "map_option (length \<circ> iterations \<circ> fst) (main link_broken) = Some 1"
          "map_option (length \<circ> draw_calls \<circ> after_close_observed \<circ> fst) (main link_broken) = Some 0"
    by auto
  from n b 1 2 first_close_nominal first_close_link_broken show ?thesis by simp
qed

subsection \<open>Resizing\<close>

text \<open>
  Claim C8. For a resize notification \<open>(w, h)\<close> the observer issues one call,
  \<^verbatim>\<open>glViewport(0, 0, w, h)\<close>: the rectangle is the full surface, with no correction of
  the aspect ratio; and every notification dispatched by a poll of the loop leads to
  exactly that call. Under this rectangle the viewport transformation sends the
  normalised corner \<open>(-1, -1)\<close> to the pixel \<open>(0, 0)\<close> and \<open>(1, 1)\<close> to \<open>(w, h)\<close>, and
  it is affine in each coordinate.
\<close>

theorem resize_sets_full_surface_viewport:
  "map viewport_rectangle (framebuffer_size_callback w h) = [Some (0, 0, w, h)] \<and>
   List.map_filter viewport_rectangle (fst (swap_and_poll env n flag)) =
     map (\<lambda>wh. (0, 0, fst wh, snd wh)) (resizes env n) \<and>
   to_window (0, 0, w, h) (- 1, - 1) = (0, 0) \<and>
   to_window (0, 0, w, h) (1, 1) = (of_int w, of_int h) \<and>
   (\<forall>a b s. window_coordinate 0 w ((1 - s) * a + s * b) =
        (1 - s) * window_coordinate 0 w a + s * window_coordinate 0 w b) \<and>
   (\<forall>a b s. window_coordinate 0 h ((1 - s) * a + s * b) =
        (1 - s) * window_coordinate 0 h a + s * window_coordinate 0 h b)"
proof (intro conjI allI)
  show "map viewport_rectangle (framebuffer_size_callback w h) = [Some (0, 0, w, h)]"
    by (simp add: framebuffer_size_callback_def)
  show "List.map_filter viewport_rectangle (fst (swap_and_poll env n flag)) =
     map (\<lambda>wh. (0, 0, fst wh, snd wh)) (resizes env n)"
    by (rule viewports_of_poll)
  show "to_window (0, 0, w, h) (- 1, - 1) = (0, 0)"
    by (simp add: window_coordinate_def)
  show "to_window (0, 0, w, h) (1, 1) = (of_int w, of_int h)"
    by (simp add: window_coordinate_def)
qed (rule window_coordinate_affine)+

theorem resize_sets_full_surface_viewport_witness:
  "map viewport_rectangle (framebuffer_size_callback 800 600) = [Some (0, 0, 800, 600)] \<and>
   to_window (0, 0, 800, 600) (- 1, - 1) = (0, 0) \<and>
   to_window (0, 0, 800, 600) (1, 1) = (800, 600) \<and>
   to_window (0, 0, 800, 600) (- 1 / 2, 1 / 2) = (200, 450)"
proof -
  have "to_window (0, 0, 800, 600) (- 1 / 2, 1 / 2) = (200, 450)"
    by (simp add: window_coordinate_def)
  with resize_sets_full_surface_viewport[of 800 600 nominal 0 False] show ?thesis
    by simp
qed

subsection \<open>Drawing\<close>

text \<open>
  Claim C2, as stated, fails: the code keeps no link-success flag and does not make
  drawing depend on the link status. In the environment \<open>link_broken\<close> the link of the
  program (handle 3) fails; the one iteration of the run still calls \<^verbatim>\<open>glUseProgram(3)\<close>
  and then \<^verbatim>\<open>glDrawArrays\<close>, so a draw call is issued for the program whose link failed.
\<close>

theorem draw_issued_for_unlinked_program:
  "\<not> link_status link_broken (shaderProgram link_broken) \<and>
   shaderProgram link_broken = 3 \<and>
   map_option (iterations \<circ> fst) (main link_broken) =
     Some [[Glfw (GetKey GLFW_KEY_ESCAPE False),
            Gl (ClearColor (2 / 10) (3 / 10) (3 / 10) 1), Gl (Clear GL_COLOR_BUFFER_BIT),
            GlShader (UseProgram 3), Gl (BindVertexArray 1),
            Gl (DrawArrays GL_TRIANGLES 0 3),
            Glfw SwapBuffers, Glfw (PollEvents True), Gl (Viewport 0 0 800 600)]] \<and>
   map_option (draw_requests 0 \<circ> fst) (main link_broken) = Some [3]"
proof -
  have w: "window_created link_broken" and g: "glad_loaded link_broken"
    and l: "\<not> link_status link_broken (shaderProgram link_broken)"
    and p: "shaderProgram link_broken = 3"
    by (simp_all add: link_broken_def nominal_def)
  have it: "spec_iteration link_broken 0 =
     [Glfw (GetKey GLFW_KEY_ESCAPE False),
      Gl (ClearColor (2 / 10) (3 / 10) (3 / 10) 1), Gl (Clear GL_COLOR_BUFFER_BIT),
      GlShader (UseProgram 3), Gl (BindVertexArray 1),
      Gl (DrawArrays GL_TRIANGLES 0 3),
      Glfw SwapBuffers, Glfw (PollEvents True), Gl (Viewport 0 0 800 600)]"
    by (simp add: spec_iteration_def spec_poll_input_def link_broken_def nominal_def
        uploaded_vertex_count_3)
  from main_closes[OF w g first_close_link_broken]
  have "map_option (iterations \<circ> fst) (main link_broken) = Some [spec_iteration link_broken 0]"
    and "map_option (draw_requests 0 \<circ> fst) (main link_broken) = Some [3]"
    by (simp_all add: iterations_main draw_requests_main p)
  with l p it show ?thesis by simp
qed

text \<open>
  Claim C2, amended. What the code does, whatever the link status: every passage through
  the loop body (in any iteration, so also in a run that never ends) issues its one draw
  call after naming the program created at setup in \<^verbatim>\<open>glUseProgram\<close>, and never asks for
  the link status; the link status is asked for once, in the setup. What OpenGL makes of
  it: the draw call is issued with that program current when its link succeeded, and
  with the program that was current before when it did not. Hence, when the loop has run
  \<open>m\<close> iterations (the calls so far are those of the setup and of \<open>m\<close> passages, which is
  where the loop stands when no close signal came before), and in every run that
  returns, each draw call was requested for the program of the setup, and was issued with
  \<open>program_in_use\<close> current: that program if its link succeeded, none if it failed.
\<close>

theorem draws_issued_whatever_the_link_status:
  "(\<forall>n flag q. draw_requests q (fst (loop_body env n flag)) = [shaderProgram env]) \<and>
   (\<forall>n flag b. draws_from (link_status env) b (fst (loop_body env n flag)) =
        [(use_program (link_status env) (shaderProgram env) b)\<lparr>vertex_array := VAO env\<rparr>]) \<and>
   (\<forall>n flag. link_status_queries (fst (loop_body env n flag)) = []) \<and>
   (\<forall>m. (\<forall>j<m. \<not> closing env j) \<longrightarrow>
        render_loop env 0 False (setup_calls env) =
        render_loop env m False (setup_calls env @ frames env 0 m)) \<and>
   (\<forall>m. draw_requests 0 (setup_calls env @ frames env 0 m) = replicate m (shaderProgram env) \<and>
        draws (link_status env) (setup_calls env @ frames env 0 m) =
          replicate m \<lparr>current_program = program_in_use env, vertex_array = VAO env,
                        array_buffer = 0\<rparr> \<and>
        link_status_queries (setup_calls env @ frames env 0 m) =
          [(shaderProgram env, link_status env (shaderProgram env))]) \<and>
   (window_created env \<and> glad_loaded env \<longrightarrow>
      (\<forall>t c. main env = Some (t, c) \<longrightarrow>
         draw_requests 0 t \<noteq> [] \<and>
         list_all (\<lambda>q. q = shaderProgram env) (draw_requests 0 t) \<and>
         length (draws (link_status env) t) = length (draw_requests 0 t) \<and>
         list_all (\<lambda>b. current_program b = program_in_use env \<and> vertex_array b = VAO env)
           (draws (link_status env) t) \<and>
         link_status_queries t = [(shaderProgram env, link_status env (shaderProgram env))]))"
proof (intro conjI allI impI)
  fix n flag q
  show "draw_requests q (fst (loop_body env n flag)) = [shaderProgram env]"
    by (simp only: loop_body_any_flag draw_requests_spec_iteration)
next
  fix n flag b
  show "draws_from (link_status env) b (fst (loop_body env n flag)) =
        [(use_program (link_status env) (shaderProgram env) b)\<lparr>vertex_array := VAO env\<rparr>]"
    by (simp only: loop_body_any_flag draws_from_spec_iteration)
next
  fix n flag
  show "link_status_queries (fst (loop_body env n flag)) = []"
    by (simp only: loop_body_any_flag link_status_queries_def link_status_queries_spec_iteration)
next
  fix m
  assume "\<forall>j<m. \<not> closing env j"
  then show "render_loop env 0 False (setup_calls env) =
        render_loop env m False (setup_calls env @ frames env 0 m)"
    by (rule render_loop_reaches)
next
  fix m
  show "draw_requests 0 (setup_calls env @ frames env 0 m) = replicate m (shaderProgram env)"
    by (rule draw_requests_reached)
  show "draws (link_status env) (setup_calls env @ frames env 0 m) =
          replicate m \<lparr>current_program = program_in_use env, vertex_array = VAO env,
                        array_buffer = 0\<rparr>"
    by (rule draws_reached)
  show "link_status_queries (setup_calls env @ frames env 0 m) =
          [(shaderProgram env, link_status env (shaderProgram env))]"
    by (rule link_status_queries_reached)
next
  fix t c
  assume ok: "window_created env \<and> glad_loaded env" and run: "main env = Some (t, c)"
  from ok have w: "window_created env" and g: "glad_loaded env" by simp_all
  from main_in_loop[OF w g run] obtain k where "first_close env k" ..
  from main_closes[OF w g this] run
  have t: "t = setup_calls env @ frames env 0 (Suc k) @
               [Glfw (WindowShouldClose True), Glfw Terminate]" by simp
  have r: "draw_requests 0 t = replicate (Suc k) (shaderProgram env)"
    unfolding t by (rule draw_requests_main)
  have d: "draws (link_status env) t = replicate (Suc k)
     \<lparr>current_program = program_in_use env, vertex_array = VAO env, array_buffer = 0\<rparr>"
    unfolding t by (rule draws_main)
  show "draw_requests 0 t \<noteq> []" unfolding r by simp
  show "list_all (\<lambda>q. q = shaderProgram env) (draw_requests 0 t)"
    unfolding r by (simp add: list_all_iff)
  show "length (draws (link_status env) t) = length (draw_requests 0 t)"
    unfolding r d by simp
  show "list_all (\<lambda>b. current_program b = program_in_use env \<and> vertex_array b = VAO env)
           (draws (link_status env) t)"
    unfolding d by (simp add: list_all_iff)
  show "link_status_queries t = [(shaderProgram env, link_status env (shaderProgram env))]"
    unfolding t by (rule link_status_queries_main)
qed

theorem draws_issued_whatever_the_link_status_witness:
  "window_created link_broken \<and> glad_loaded link_broken \<and>
   \<not> link_status link_broken (shaderProgram link_broken) \<and>
   map_option (draw_requests 0 \<circ> fst) (main link_broken) = Some [3] \<and>
   map_option (map current_program \<circ> draws (link_status link_broken) \<circ> fst) (main link_broken)
     = Some [0] \<and>
   map_option (link_status_queries \<circ> fst) (main link_broken) = Some [(3, False)] \<and>
   window_created nominal \<and> glad_loaded nominal \<and>
   link_status nominal (shaderProgram nominal) \<and>
   map_option (draw_requests 0 \<circ> fst) (main nominal) = Some [3, 3] \<and>
   map_option (map current_program \<circ> draws (link_status nominal) \<circ> fst) (main nominal)
     = Some [3, 3] \<and>
   map_option (link_status_queries \<circ> fst) (main nominal) = Some [(3, True)]"
proof -
  have b: "window_created link_broken" "glad_loaded link_broken"
    "\<not> link_status link_broken (shaderProgram link_broken)" "shaderProgram link_broken = 3"
    "program_in_use link_broken = 0"
    by (simp_all add: link_broken_def nominal_def program_in_use_def)
  have n: "window_created nominal" "glad_loaded nominal"
    "link_status nominal (shaderProgram nominal)" "shaderProgram nominal = 3"
    "program_in_use nominal = 3"
    by (simp_all add: nominal_def program_in_use_def)
  from main_closes[OF b(1,2) first_close_link_broken]
  obtain u where u: "main link_broken = Some (u, 0)" by blast
  from main_closes[OF n(1,2) first_close_nominal]
  obtain t where t: "main nominal = Some (t, 0)" by blast
  have it: "length (iterations u) = 1" "length (iterations t) = 2"
    using main_closes[OF b(1,2) first_close_link_broken] u
          main_closes[OF n(1,2) first_close_nominal] t
    by (simp_all add: iterations_main)
  from draws_issued_whatever_the_link_status[of link_broken] b(1,2) u
  have fu: "draw_requests 0 u \<noteq> []" "list_all (\<lambda>q. q = shaderProgram link_broken) (draw_requests 0 u)"
    "length (draws (link_status link_broken) u) = length (draw_requests 0 u)"
    "list_all (\<lambda>b. current_program b = program_in_use link_broken \<and>
        vertex_array b = VAO link_broken) (draws (link_status link_broken) u)"
    "link_status_queries u = [(shaderProgram link_broken,
        link_status link_broken (shaderProgram link_broken))]"
    by blast+
  from draws_issued_whatever_the_link_status[of nominal] n(1,2) t
  have ft: "draw_requests 0 t \<noteq> []" "list_all (\<lambda>q. q = shaderProgram nominal) (draw_requests 0 t)"
    "length (draws (link_status nominal) t) = length (draw_requests 0 t)"
    "list_all (\<lambda>b. current_program b = program_in_use nominal \<and>
        vertex_array b = VAO nominal) (draws (link_status nominal) t)"
    "link_status_queries t = [(shaderProgram nominal, link_status nominal (shaderProgram nominal))]"
    by blast+
  have lu: "draw_requests 0 u = [3]"
    using main_closes[OF b(1,2) first_close_link_broken] u
    by (simp add: draw_requests_main b(4))
  have lt: "draw_requests 0 t = [3, 3]"
    using main_closes[OF n(1,2) first_close_nominal] t
    by (simp add: draw_requests_main n(4))
  from fu(3,4) lu b(5) have du: "map current_program (draws (link_status link_broken) u) = [0]"
    by (cases "draws (link_status link_broken) u") (auto simp: list_all_iff)
  from ft(3,4) lt n(5) have dt: "map current_program (draws (link_status nominal) t) = [3, 3]"
    by (cases "draws (link_status nominal) t"; cases "tl (draws (link_status nominal) t)")
       (auto simp: list_all_iff)
  from b n u t lu lt du dt fu(5) ft(5) show ?thesis by simp
qed

subsection \<open>Geometry upload\<close>

text \<open>
  Claim C7. The OpenGL calls of the setup that are not about shaders are, in order: the
  generation of the buffer and vertex-array names, then the seven steps: bind the vertex
  array, bind the buffer, copy the vertex data (9 floats of 4 bytes), declare the layout
  of attribute 0 (3 components, \<^verbatim>\<open>GL_FLOAT\<close>, not normalised, stride \<open>3 * sizeof_float\<close>,
  offset 0), enable attribute 0, unbind the buffer, unbind the vertex array. Each call is
  paired with the bindings in force when it is issued: the layout is declared while the
  buffer \<^verbatim>\<open>VBO\<close> and the vertex array \<^verbatim>\<open>VAO\<close> are bound, and after the setup neither is.
\<close>

theorem geometry_upload_order:
  "gl_calls (link_status env) (setup_calls env) =
     [(\<lparr>current_program = program_in_use env, vertex_array = 0, array_buffer = 0\<rparr>,
       Gl (GenBuffers (VBO env))),
      (\<lparr>current_program = program_in_use env, vertex_array = 0, array_buffer = 0\<rparr>,
       Gl (GenVertexArrays (VAO env))),
      (\<lparr>current_program = program_in_use env, vertex_array = 0, array_buffer = 0\<rparr>,
       Gl (BindVertexArray (VAO env))),
      (\<lparr>current_program = program_in_use env, vertex_array = VAO env, array_buffer = 0\<rparr>,
       Gl (BindBuffer GL_ARRAY_BUFFER (VBO env))),
      (\<lparr>current_program = program_in_use env, vertex_array = VAO env, array_buffer = VBO env\<rparr>,
       Gl (BufferData GL_ARRAY_BUFFER (length vertices * sizeof_float) vertices GL_STATIC_DRAW)),
      (\<lparr>current_program = program_in_use env, vertex_array = VAO env, array_buffer = VBO env\<rparr>,
       Gl (VertexAttribPointer 0 3 GL_FLOAT False (3 * sizeof_float) 0)),
      (\<lparr>current_program = program_in_use env, vertex_array = VAO env, array_buffer = VBO env\<rparr>,
       Gl (EnableVertexAttribArray 0)),
      (\<lparr>current_program = program_in_use env, vertex_array = VAO env, array_buffer = VBO env\<rparr>,
       Gl (BindBuffer GL_ARRAY_BUFFER 0)),
      (\<lparr>current_program = program_in_use env, vertex_array = VAO env, array_buffer = 0\<rparr>,
       Gl (BindVertexArray 0))] \<and>
   bindings_after (link_status env) initial_bindings (setup_calls env) =
     \<lparr>current_program = program_in_use env, vertex_array = 0, array_buffer = 0\<rparr> \<and>
   length vertices = 3 * 3 \<and> sizeof_float = 4"
proof -
  let ?L = "link_status env"
  have "gl_calls ?L (setup_calls env) =
        gl_calls_from ?L initial_bindings
          ((create_window env @ load_functions env) @ shader_setup env @ geometry_setup env)"
    by (simp add: gl_calls_def setup_calls_def)
  also have "\<dots> = gl_calls_from ?L initial_bindings (create_window env @ load_functions env) @
        gl_calls_from ?L
          (bindings_after ?L initial_bindings (create_window env @ load_functions env))
          (shader_setup env @ geometry_setup env)"
    by (rule gl_calls_from_append)
  also have "\<dots> = gl_calls_from ?L initial_bindings (shader_setup env @ geometry_setup env)"
    by (simp only: gl_calls_from_bootstrap bindings_after_bootstrap append_Nil)
  also have "\<dots> = gl_calls_from ?L initial_bindings (shader_setup env) @
        gl_calls_from ?L (bindings_after ?L initial_bindings (shader_setup env))
          (geometry_setup env)"
    by (rule gl_calls_from_append)
  also have "\<dots> = gl_calls_from ?L
          \<lparr>current_program = program_in_use env, vertex_array = 0, array_buffer = 0\<rparr>
          (geometry_setup env)"
    by (simp only: gl_calls_from_shader_setup bindings_after_shader_setup use_program_initial
        append_Nil)
  finally have "gl_calls ?L (setup_calls env) =
        gl_calls_from ?L
          \<lparr>current_program = program_in_use env, vertex_array = 0, array_buffer = 0\<rparr>
          (geometry_setup env)" .
  then show ?thesis
    by (simp add: bindings_after_setup)
       (simp add: gl_calls_from_def geometry_setup_def sizeof_vertices_def vertices_def
          sizeof_float_def)
qed

theorem geometry_upload_order_witness:
  "map snd (drop 2 (gl_calls (link_status nominal) (setup_calls nominal))) =
     [Gl (BindVertexArray 1),
      Gl (BindBuffer GL_ARRAY_BUFFER 1),
      Gl (BufferData GL_ARRAY_BUFFER 36 vertices GL_STATIC_DRAW),
      Gl (VertexAttribPointer 0 3 GL_FLOAT False 12 0),
      Gl (EnableVertexAttribArray 0),
      Gl (BindBuffer GL_ARRAY_BUFFER 0),
      Gl (BindVertexArray 0)]"
  using geometry_upload_order[of nominal]
  by (simp add: nominal_def)

end
